theory Spec2Isabelle
  imports Main "HOL-Library.Sublist"
begin

section \<open>The p2p coordinator of daisy (p2pcoordinator.go)\<close>

text \<open>
  A shallow embedding of \<^verbatim>\<open>src/p2pcoordinator.go\<close>. The coordinator is a
  single goroutine; its handlers are modelled as functions from the state before the call
  to the state after it. Everything the handlers call outside this file (the database, the
  network, the peer registry, the clock) is either part of an explicit environment record
  or of the explicit state, and every such call is recorded in a trace.
\<close>

subsection \<open>Strings: \<^verbatim>\<open>strings.LastIndex\<close> and the \<^verbatim>\<open>%d\<close> verb\<close>

text \<open>
  \<^verbatim>\<open>strings.LastIndex(s, ":")\<close> for a separator of one byte: the index of the last
  occurrence of the byte in \<open>s\<close>, or \<open>-1\<close> when there is none. Go strings are byte
  sequences, as \<^typ>\<open>string\<close> is here.
\<close>

fun LastIndex :: "string \<Rightarrow> char \<Rightarrow> int" where
  "LastIndex [] c = -1"
| "LastIndex (x # xs) c =
     (if LastIndex xs c > -1 then LastIndex xs c + 1
      else if x = c then 0 else -1)"

text \<open>The decimal digits of a natural number, most significant first.\<close>

fun formatNat :: "nat \<Rightarrow> string" where
  "formatNat n =
     (if n < 10 then [''0123456789'' ! n]
      else formatNat (n div 10) @ [''0123456789'' ! (n mod 10)])"

declare formatNat.simps [simp del]

text \<open>\<^verbatim>\<open>fmt.Sprintf("%d", i)\<close>: a minus sign for a negative number, then the digits.\<close>

definition formatD :: "int \<Rightarrow> string" where
  "formatD i = (if i < 0 then CHR ''-'' # formatNat (nat (- i)) else formatNat (nat i))"

subsection \<open>Address canonicalization (handleDiscoverPeers, lines 73 to 80)\<close>

text \<open>
  The value of the local variable \<^verbatim>\<open>canonicalAddress\<close> for a candidate
  \<^verbatim>\<open>address\<close>; the first argument is the constant \<^verbatim>\<open>DefaultP2PPort\<close>,
  which is declared outside this file.
  \<^verbatim>\<open>
    i := strings.LastIndex(address, ":")
    var host string
    if i > -1 { host = address[0:i] } else { host = address }
    canonicalAddress := fmt.Sprintf("%s:%d", host, DefaultP2PPort)
  \<close>
\<close>

definition hostOf :: "string \<Rightarrow> string" where
  "hostOf address =
     (let i = LastIndex address (CHR '':'')
      in if i > -1 then take (nat i) address else address)"

definition canonicalAddress :: "int \<Rightarrow> string \<Rightarrow> string" where
  "canonicalAddress defaultP2PPort address =
     hostOf address @ '':'' @ formatD defaultP2PPort"

subsection \<open>Messages and channels\<close>

text \<open>
  The two message structs the coordinator builds. Both embed \<^verbatim>\<open>p2pMsgHeader\<close>.
  The types of the header fields are declared outside this file.
\<close>

record p2pMsgHeader =
  P2pID :: int
  Root :: string
  Msg :: string

record p2pMsgGetBlockHashesStruct = p2pMsgHeader +
  MinBlockHeight :: int
  MaxBlockHeight :: int

record p2pMsgBlockHashesStruct = p2pMsgHeader +
  Hashes :: "string list"

text \<open>What travels on \<^verbatim>\<open>chanToPeer\<close>, a \<^verbatim>\<open>chan interface{}\<close>.\<close>

datatype message =
  MsgGetBlockHashes p2pMsgGetBlockHashesStruct
| MsgBlockHashes p2pMsgBlockHashesStruct

text \<open>
  A buffered Go channel: the messages waiting in its buffer, oldest first, and its
  capacity. \<^verbatim>\<open>make(chan T, n)\<close> is \<open>make_chan n\<close>.
\<close>

record 'a chan =
  buf :: "'a list"
  cap :: nat

definition make_chan :: "nat \<Rightarrow> 'a chan" where
  "make_chan n = \<lparr>buf = [], cap = n\<rparr>"

text \<open>
  \<^verbatim>\<open>ch <- m\<close>: the message is appended when the buffer has room. When the buffer is
  full (for an unbuffered channel, always) the sending goroutine blocks until the
  receiver takes a message; whether that ever happens is up to the peer's worker, which
  is not part of this file, so the model stops there: \<open>None\<close>.
\<close>

definition chan_send :: "'a chan \<Rightarrow> 'a \<Rightarrow> 'a chan option" where
  "chan_send ch m =
     (if length (buf ch) < cap ch then Some (ch\<lparr>buf := buf ch @ [m]\<rparr>) else None)"

subsection \<open>Connections, coordinator, state\<close>

text \<open>
  \<^verbatim>\<open>StrIfMap\<close>, the type of the messages that arrive from a peer, is declared
  outside this file; the coordinator never builds or reads one.
\<close>

type_synonym StrIfMap = "(string \<times> string) list"

text \<open>
  The fields of \<^verbatim>\<open>p2pConnection\<close> that this file reads or sets. \<open>conn\<close> stands
  for the socket: the address it was dialled to.
\<close>

record p2pConnection =
  conn :: string
  address :: string
  chainHeight :: int
  chanToPeer :: "message chan"
  chanFromPeer :: "StrIfMap chan"

text \<open>
  Modelled from the spec: \<^verbatim>\<open>StringSetWithExpiry\<close> is declared outside this file. The
  spec gives its contract (membership test \<^verbatim>\<open>contains(key) -> bool\<close>, entries
  disappear once their time to live has elapsed); the model is the set of keys that are
  members at the time a handler runs.
\<close>

type_synonym StringSetWithExpiry = "string set"

text \<open>
  Modelled from the spec: the method \<^verbatim>\<open>Has\<close> of \<^verbatim>\<open>StringSetWithExpiry\<close>, the
  spec's membership test.
\<close>

definition Has :: "StringSetWithExpiry \<Rightarrow> string \<Rightarrow> bool" where
  "Has s k = (k \<in> s)"

text \<open>
  Times are readings of the clock in nanoseconds; a \<^verbatim>\<open>time.Duration\<close> is a
  signed 64-bit count of nanoseconds.
\<close>

type_synonym Time = int
type_synonym Duration = int

text \<open>
  \<^verbatim>\<open>p2pCoordinatorType\<close>. The field \<^verbatim>\<open>timeTicks\<close> (the channel of ticks)
  is represented by the tick events of \<open>Run\<close> below.
\<close>

record p2pCoordinatorType =
  lastTickBlockchainHeight :: int
  recentlyRequestedBlocks :: StringSetWithExpiry
  lastReconnectTime :: Time
  badPeers :: StringSetWithExpiry

text \<open>The calls that leave the coordinator, in the order they are made.\<close>

datatype call =
  CallDbGetBlockchainHeight
| CallDbGetHeightHashes int int
| CallDbGetSavedPeers
| CallDbSavePeer string
| CallResolveTCPAddr string
| CallDialTCP string
| CallDial string
| CallGoHandleConnection nat
| CallGoTimeTickSource
| LogSearching int int
| LogDetected string
| LogErrorConnecting string

text \<open>
  The state the handlers work on: the coordinator's fields, the peer registry
  \<^verbatim>\<open>p2pPeers.peers\<close> (a Go map whose keys are pointers to connections: here the
  list of its keys in the order an iteration visits them), the connections those pointers
  point to (a pointer is an index into \<open>heap\<close>; an index beyond it is the nil pointer),
  and the trace of calls.
\<close>

record world =
  co :: p2pCoordinatorType
  p2pPeers :: "nat list"
  heap :: "p2pConnection list"
  calls :: "call list"

text \<open>
  What the handlers read from outside: constants and variables declared in other files,
  the database, the network and the clock, as they are while one event is handled.
  \<open>dbHashAt\<close> is the persisted chain (the hash at each height); for the network,
  \<open>True\<close> means that the call returned no error.
\<close>

record env =
  DefaultP2PPort :: int
  p2pEphemeralID :: int
  GenesisBlockHash :: string
  p2pMsgGetBlockHashes :: string
  p2pMsgBlockHashes :: string
  dbBlockchainHeight :: int
  dbHashAt :: "int \<Rightarrow> string"
  dbSavedPeers :: "string list"
  resolveTCPAddr :: "string \<Rightarrow> bool"
  dialTCP :: "string \<Rightarrow> bool"
  dial :: "string \<Rightarrow> bool"
  clockAtSince :: Time
  clockAtNow :: Time

text \<open>
  How a handler ends: it returns; or it blocks in a send on a full channel (\<open>Blocked w p m\<close>:
  in state \<open>w\<close>, sending \<open>m\<close> on the channel of connection \<open>p\<close>); or it
  dereferences a nil pointer and the process panics.
\<close>

datatype outcome = Returned world | Blocked world nat message | Panicked

definition trace :: "world \<Rightarrow> call \<Rightarrow> world" where
  "trace w c = w\<lparr>calls := calls w @ [c]\<rparr>"

text \<open>\<^verbatim>\<open>p.chanToPeer <- m\<close> for a pointer \<open>p\<close>.\<close>

definition sendToPeer :: "world \<Rightarrow> nat \<Rightarrow> message \<Rightarrow> outcome" where
  "sendToPeer w p m =
     (if p < length (heap w) then
        (case chan_send (chanToPeer (heap w ! p)) m of
           Some ch \<Rightarrow> Returned (w\<lparr>heap := (heap w)[p := (heap w ! p)\<lparr>chanToPeer := ch\<rparr>]\<rparr>)
         | None \<Rightarrow> Blocked w p m)
      else Panicked)"

text \<open>
  Modelled from the spec: \<^verbatim>\<open>p2pPeers.HasAddress\<close>, a method of the peer registry,
  which is declared outside this file. The spec gives the registry a membership test by
  address: it holds when some registered connection has the address.
\<close>

definition HasAddress :: "world \<Rightarrow> string \<Rightarrow> bool" where
  "HasAddress w a =
     list_ex (\<lambda>p. p < length (heap w) \<and> address (heap w ! p) = a) (p2pPeers w)"

text \<open>
  Modelled from the spec: \<^verbatim>\<open>p2pPeers.Add\<close>, the registry's add. A pointer to a
  connection that has just been made is a new key of the map.
\<close>

definition p2pPeers_Add :: "world \<Rightarrow> nat \<Rightarrow> world" where
  "p2pPeers_Add w p = w\<lparr>p2pPeers := p2pPeers w @ [p]\<rparr>"

text \<open>
  Modelled from the spec: \<^verbatim>\<open>dbGetHeightHashes\<close> is declared outside this file. The
  spec's contract is \<^verbatim>\<open>hashesInRange(minExclusive, maxInclusive) -> ordered sequence
  of hash\<close>.
\<close>

definition dbGetHeightHashes :: "env \<Rightarrow> int \<Rightarrow> int \<Rightarrow> string list" where
  "dbGetHeightHashes e minHeight maxHeight = map (dbHashAt e) [minHeight + 1..maxHeight]"

subsection \<open>Time\<close>

definition Minute :: Duration where
  "Minute = 60 * 1000000000"

definition maxDuration :: Duration where
  "maxDuration = 2 ^ 63 - 1"

definition minDuration :: Duration where
  "minDuration = - (2 ^ 63)"

text \<open>
  \<^verbatim>\<open>time.Since(t)\<close> with the clock reading \<open>now\<close>: the difference, which Go
  saturates at the largest and the smallest \<^verbatim>\<open>Duration\<close>.
\<close>

definition time_Since :: "Time \<Rightarrow> Time \<Rightarrow> Duration" where
  "time_Since now t =
     (let d = now - t
      in if d > maxDuration then maxDuration
         else if d < minDuration then minDuration else d)"

subsection \<open>handleSearchForBlocks\<close>

definition handleSearchForBlocks :: "env \<Rightarrow> world \<Rightarrow> nat \<Rightarrow> outcome" where
  "handleSearchForBlocks e w p2pcStart =
     (let w1 = trace w CallDbGetBlockchainHeight
      in if p2pcStart < length (heap w1) then
           (let msg = \<lparr>P2pID = p2pEphemeralID e, Root = GenesisBlockHash e,
                       Msg = p2pMsgGetBlockHashes e,
                       MinBlockHeight = dbBlockchainHeight e,
                       MaxBlockHeight = chainHeight (heap w1 ! p2pcStart)\<rparr>;
                w2 = trace w1 (LogSearching (MinBlockHeight msg) (MaxBlockHeight msg))
            in sendToPeer w2 p2pcStart (MsgGetBlockHashes msg))
         else Panicked)"

subsection \<open>handleDiscoverPeers\<close>

text \<open>
  One iteration of the loop over the candidates. \<open>Continue\<close>: the loop goes on with the
  next candidate (the \<^verbatim>\<open>continue\<close> statement, or the end of the body). \<open>Return\<close>:
  the \<^verbatim>\<open>return\<close> statement, which leaves the handler.
\<close>

datatype ctl = Continue | Return

definition discoverCandidate :: "env \<Rightarrow> world \<Rightarrow> string \<Rightarrow> ctl \<times> world" where
  "discoverCandidate e w candidate =
     (let ca = canonicalAddress (DefaultP2PPort e) candidate
      in if HasAddress w ca \<or> Has (badPeers (co w)) ca then (Continue, w)
         else
           let w1 = trace w (CallResolveTCPAddr ca)
           in if \<not> resolveTCPAddr e ca then (Return, w1)
              else
                let w2 = trace w1 (CallDialTCP ca)
                in if \<not> dialTCP e ca then (Return, w2)
                   else
                     let p2pc = \<lparr>conn = ca, address = ca, chainHeight = 0,
                                  chanToPeer = make_chan 5, chanFromPeer = make_chan 5\<rparr>;
                         p = length (heap w2);
                         w3 = w2\<lparr>heap := heap w2 @ [p2pc]\<rparr>;
                         w4 = p2pPeers_Add w3 p;
                         w5 = trace w4 (CallGoHandleConnection p);
                         w6 = trace w5 (LogDetected ca)
                     in (Continue, trace w6 (CallDbSavePeer ca)))"

fun discoverLoop :: "env \<Rightarrow> world \<Rightarrow> string list \<Rightarrow> world" where
  "discoverLoop e w [] = w"
| "discoverLoop e w (candidate # addresses) =
     (case discoverCandidate e w candidate of
        (Continue, w') \<Rightarrow> discoverLoop e w' addresses
      | (Return, w') \<Rightarrow> w')"

definition handleDiscoverPeers :: "env \<Rightarrow> world \<Rightarrow> string list \<Rightarrow> world" where
  "handleDiscoverPeers e w addresses = discoverLoop e w addresses"

subsection \<open>connectDbPeers\<close>

text \<open>One iteration of the loop over the saved peers; every path goes on with the next.\<close>

definition connectDbPeer :: "env \<Rightarrow> world \<Rightarrow> string \<Rightarrow> world" where
  "connectDbPeer e w peer =
     (if HasAddress w peer then w
      else if Has (badPeers (co w)) peer then w
      else
        let w1 = trace w (CallDial peer)
        in if \<not> dial e peer then trace w1 (LogErrorConnecting peer)
           else
             let p2pc = \<lparr>conn = peer, address = peer, chainHeight = 0,
                          chanToPeer = make_chan 5, chanFromPeer = make_chan 5\<rparr>;
                 p = length (heap w1);
                 w2 = w1\<lparr>heap := heap w1 @ [p2pc]\<rparr>;
                 w3 = p2pPeers_Add w2 p
             in trace w3 (CallGoHandleConnection p))"

fun connectLoop :: "env \<Rightarrow> world \<Rightarrow> string list \<Rightarrow> world" where
  "connectLoop e w [] = w"
| "connectLoop e w (peer # peers) = connectLoop e (connectDbPeer e w peer) peers"

text \<open>
  \<^verbatim>\<open>dbGetSavedPeers()\<close> returns a Go map keyed by address; \<open>dbSavedPeers e\<close> is
  the list of its keys in the order the loop visits them.
\<close>

definition connectDbPeers :: "env \<Rightarrow> world \<Rightarrow> world" where
  "connectDbPeers e w = connectLoop e (trace w CallDbGetSavedPeers) (dbSavedPeers e)"

subsection \<open>floodPeersWithNewBlocks and handleTimeTick\<close>

fun floodLoop :: "world \<Rightarrow> nat list \<Rightarrow> message \<Rightarrow> outcome" where
  "floodLoop w [] m = Returned w"
| "floodLoop w (p2pc # ps) m =
     (case sendToPeer w p2pc m of
        Returned w' \<Rightarrow> floodLoop w' ps m
      | Blocked w' q m' \<Rightarrow> Blocked w' q m'
      | Panicked \<Rightarrow> Panicked)"

definition floodPeersWithNewBlocks :: "env \<Rightarrow> world \<Rightarrow> int \<Rightarrow> int \<Rightarrow> outcome" where
  "floodPeersWithNewBlocks e w minHeight maxHeight =
     (let blockHashes = dbGetHeightHashes e minHeight maxHeight;
          w1 = trace w (CallDbGetHeightHashes minHeight maxHeight);
          msg = \<lparr>P2pID = p2pEphemeralID e, Root = GenesisBlockHash e,
                  Msg = p2pMsgBlockHashes e, Hashes = blockHashes\<rparr>
      in floodLoop w1 (p2pPeers w1) (MsgBlockHashes msg))"

text \<open>The first \<^verbatim>\<open>if\<close> of the tick handler.\<close>

definition tickHeight :: "env \<Rightarrow> world \<Rightarrow> outcome" where
  "tickHeight e w =
     (let w1 = trace w CallDbGetBlockchainHeight;
          newHeight = dbBlockchainHeight e
      in if newHeight > lastTickBlockchainHeight (co w1) then
           (case floodPeersWithNewBlocks e w1 (lastTickBlockchainHeight (co w1)) newHeight of
              Returned w2 \<Rightarrow>
                Returned (w2\<lparr>co := (co w2)\<lparr>lastTickBlockchainHeight := newHeight\<rparr>\<rparr>)
            | Blocked w2 q m \<Rightarrow> Blocked w2 q m
            | Panicked \<Rightarrow> Panicked)
         else Returned w1)"

text \<open>The second \<^verbatim>\<open>if\<close> of the tick handler.\<close>

definition tickReconnect :: "env \<Rightarrow> world \<Rightarrow> world" where
  "tickReconnect e w =
     (if time_Since (clockAtSince e) (lastReconnectTime (co w)) \<ge> 10 * Minute then
        connectDbPeers e (w\<lparr>co := (co w)\<lparr>lastReconnectTime := clockAtNow e\<rparr>\<rparr>)
      else w)"

definition handleTimeTick :: "env \<Rightarrow> world \<Rightarrow> outcome" where
  "handleTimeTick e w =
     (case tickHeight e w of
        Returned w1 \<Rightarrow> Returned (tickReconnect e w1)
      | Blocked w1 q m \<Rightarrow> Blocked w1 q m
      | Panicked \<Rightarrow> Panicked)"

subsection \<open>Run\<close>

text \<open>
  The control messages (their struct is declared outside this file): the two message
  types the loop dispatches on, each with a payload of the type that the loop's type
  assertion expects, and any other type, for which the \<^verbatim>\<open>switch\<close> has no case.
\<close>

datatype ctrlMsg =
  p2pCtrlSearchForBlocks nat
| p2pCtrlDiscoverPeers "string list"
| p2pCtrlOther

datatype event = FromCtrlChannel ctrlMsg | FromTimeTicks

text \<open>One round of the \<^verbatim>\<open>select\<close>.\<close>

fun dispatch :: "env \<Rightarrow> world \<Rightarrow> event \<Rightarrow> outcome" where
  "dispatch e w (FromCtrlChannel (p2pCtrlSearchForBlocks p)) = handleSearchForBlocks e w p"
| "dispatch e w (FromCtrlChannel (p2pCtrlDiscoverPeers addresses)) =
     Returned (handleDiscoverPeers e w addresses)"
| "dispatch e w (FromCtrlChannel p2pCtrlOther) = Returned w"
| "dispatch e w FromTimeTicks = handleTimeTick e w"

text \<open>
  The endless loop, on the events it has received so far, each with the environment in
  which it is handled. The goroutine \<^verbatim>\<open>timeTickSource\<close>, which sleeps a second and
  sends a tick, forever, is the source of the \<open>FromTimeTicks\<close> events.
\<close>

fun runLoop :: "world \<Rightarrow> (env \<times> event) list \<Rightarrow> outcome" where
  "runLoop w [] = Returned w"
| "runLoop w ((e, ev) # evs) =
     (case dispatch e w ev of
        Returned w' \<Rightarrow> runLoop w' evs
      | Blocked w' q m' \<Rightarrow> Blocked w' q m'
      | Panicked \<Rightarrow> Panicked)"

definition runInit :: "env \<Rightarrow> world \<Rightarrow> world" where
  "runInit e w =
     (let w1 = trace w CallDbGetBlockchainHeight;
          w2 = w1\<lparr>co := (co w1)\<lparr>lastTickBlockchainHeight := dbBlockchainHeight e\<rparr>\<rparr>
      in trace w2 CallGoTimeTickSource)"

definition Run :: "env \<Rightarrow> world \<Rightarrow> (env \<times> event) list \<Rightarrow> outcome" where
  "Run e w evs = runLoop (runInit e w) evs"

subsection \<open>Notions used in the statements\<close>

text \<open>A connection after one more message has been appended to its outbound queue.\<close>

definition received :: "p2pConnection \<Rightarrow> message \<Rightarrow> p2pConnection" where
  "received c m = c\<lparr>chanToPeer := (chanToPeer c)\<lparr>buf := buf (chanToPeer c) @ [m]\<rparr>\<rparr>"

text \<open>The state in which connection \<open>p\<close> has received \<open>m\<close> and nothing else differs.\<close>

definition enqueued :: "world \<Rightarrow> nat \<Rightarrow> message \<Rightarrow> world" where
  "enqueued w p m = w\<lparr>heap := (heap w)[p := received (heap w ! p) m]\<rparr>"

text \<open>
  The pointer \<open>p\<close> points to a connection, and the buffer of its outbound channel is not
  full: a send on it does not block.
\<close>

definition hasRoom :: "world \<Rightarrow> nat \<Rightarrow> bool" where
  "hasRoom w p \<longleftrightarrow>
     p < length (heap w)
     \<and> length (buf (chanToPeer (heap w ! p))) < cap (chanToPeer (heap w ! p))"

text \<open>The request that \<open>handleSearchForBlocks\<close> builds for the connection \<open>p\<close>.\<close>

definition searchRequest :: "env \<Rightarrow> world \<Rightarrow> nat \<Rightarrow> message" where
  "searchRequest e w p =
     MsgGetBlockHashes
       \<lparr>P2pID = p2pEphemeralID e, Root = GenesisBlockHash e, Msg = p2pMsgGetBlockHashes e,
        MinBlockHeight = dbBlockchainHeight e,
        MaxBlockHeight = chainHeight (heap w ! p)\<rparr>"

text \<open>The addresses of the dial attempts in a trace, in order.\<close>

fun dials :: "call list \<Rightarrow> string list" where
  "dials [] = []"
| "dials (CallDialTCP a # tr) = a # dials tr"
| "dials (CallDial a # tr) = a # dials tr"
| "dials (c # tr) = dials tr"

text \<open>
  What discovery and reconnection may do to a state: the coordinator's fields stay, the
  registry, the connections and the trace are extended at their ends, and every new
  connection has an empty outbound queue.
\<close>

definition grows :: "world \<Rightarrow> world \<Rightarrow> bool" where
  "grows w w' \<longleftrightarrow>
     co w' = co w \<and> prefix (heap w) (heap w') \<and> prefix (p2pPeers w) (p2pPeers w')
     \<and> prefix (calls w) (calls w')
     \<and> (\<forall>c \<in> set (drop (length (heap w)) (heap w')). buf (chanToPeer c) = [])"

subsection \<open>A concrete environment and state\<close>

text \<open>
  An environment and a state on which the theorems below are instantiated: port 2017, a
  chain of height 103 whose last three hashes are \<open>a\<close>, \<open>b\<close>, \<open>c\<close>, three saved
  peers, of which one is quarantined and one cannot be reached, a name that does not
  resolve, a host that refuses the connection, and one registered connection with an
  empty outbound queue. The last tick saw height 100, and ten minutes have passed since
  the last reconnection.
\<close>

definition exampleEnv :: env where
  "exampleEnv =
     \<lparr>DefaultP2PPort = 2017, p2pEphemeralID = 7, GenesisBlockHash = ''genesis'',
      p2pMsgGetBlockHashes = ''getblockhashes'', p2pMsgBlockHashes = ''blockhashes'',
      dbBlockchainHeight = 103,
      dbHashAt = (\<lambda>h. if h = 101 then ''a'' else if h = 102 then ''b'' else ''c''),
      dbSavedPeers = [''10.0.0.1:7777'', ''6.6.6.6:2017'', ''10.0.0.9:2017''],
      resolveTCPAddr = (\<lambda>a. a \<noteq> ''bad:2017''),
      dialTCP = (\<lambda>a. a \<noteq> ''down:2017''),
      dial = (\<lambda>a. a \<noteq> ''10.0.0.9:2017''),
      clockAtSince = 600000000000, clockAtNow = 600000000001\<rparr>"

definition exampleConn :: p2pConnection where
  "exampleConn =
     \<lparr>conn = ''10.0.0.2:2017'', address = ''10.0.0.2:2017'', chainHeight = 120,
      chanToPeer = make_chan 5, chanFromPeer = make_chan 5\<rparr>"

definition exampleCo :: p2pCoordinatorType where
  "exampleCo =
     \<lparr>lastTickBlockchainHeight = 100, recentlyRequestedBlocks = {},
      lastReconnectTime = 0, badPeers = {''6.6.6.6:2017''}\<rparr>"

definition exampleWorld :: world where
  "exampleWorld = \<lparr>co = exampleCo, p2pPeers = [0], heap = [exampleConn], calls = []\<rparr>"

text \<open>
  The same state, but the outbound channel of the connection has capacity 1 and a
  message is waiting in it: its buffer is full.
\<close>

definition exampleFullWorld :: world where
  "exampleFullWorld =
     exampleWorld\<lparr>heap :=
       [exampleConn\<lparr>chanToPeer :=
          \<lparr>buf = [MsgGetBlockHashes
                    \<lparr>P2pID = 7, Root = ''genesis'', Msg = ''getblockhashes'',
                     MinBlockHeight = 100, MaxBlockHeight = 120\<rparr>],
           cap = 1\<rparr>\<rparr>]\<rparr>"

section \<open>Verification\<close>

subsection \<open>Facts about the string functions\<close>

lemma LastIndex_none: "c \<notin> set s \<Longrightarrow> LastIndex s c = -1"
  by (induction s) auto

lemma LastIndex_lower: "- 1 \<le> LastIndex s c"
  by (induction s) auto

lemma LastIndex_append_sep:
  "c \<notin> set post \<Longrightarrow> LastIndex (pre @ c # post) c = int (length pre)"
proof (induction pre)
  case Nil
  then show ?case by (simp add: LastIndex_none)
next
  case (Cons x pre)
  then show ?case by simp
qed

lemma LastIndex_some:
  "c \<in> set s \<Longrightarrow> \<exists>pre post. s = pre @ c # post \<and> c \<notin> set post"
  by (metis split_list_last)

lemma digit_not_colon: "d < 10 \<Longrightarrow> CHR '':'' \<noteq> ''0123456789'' ! d"
proof -
  assume "d < 10"
  then have "d \<in> {0, 1, 2, 3, 4, 5, 6, 7, 8, 9}" by auto
  then show ?thesis by auto
qed

lemma formatNat_no_colon: "CHR '':'' \<notin> set (formatNat n)"
proof (induction n rule: formatNat.induct)
  case (1 n)
  show ?case
  proof (cases "n < 10")
    case True
    then show ?thesis
      by (subst formatNat.simps) (simp add: digit_not_colon)
  next
    case False
    have "n mod 10 < 10" by simp
    with False 1 show ?thesis
      by (subst formatNat.simps) (simp add: digit_not_colon del: One_nat_def)
  qed
qed

lemma formatD_no_colon: "CHR '':'' \<notin> set (formatD i)"
  by (simp add: formatD_def formatNat_no_colon)

lemma hostOf_no_colon: "CHR '':'' \<notin> set s \<Longrightarrow> hostOf s = s"
  by (simp add: hostOf_def LastIndex_none)

lemma hostOf_last_colon:
  "CHR '':'' \<notin> set post \<Longrightarrow> hostOf (pre @ CHR '':'' # post) = pre"
  by (simp add: hostOf_def LastIndex_append_sep)

lemma hostOf_canonicalAddress: "hostOf (canonicalAddress port s) = hostOf s"
  using hostOf_last_colon [OF formatD_no_colon, of "hostOf s" port]
  by (simp add: canonicalAddress_def)

lemma formatD_2017: "formatD 2017 = ''2017''"
  by (simp add: formatD_def formatNat.simps)


lemmas example_defs =
  exampleEnv_def exampleFullWorld_def exampleWorld_def exampleCo_def exampleConn_def
  make_chan_def

lemmas canonical_defs = canonicalAddress_def hostOf_def formatD_2017

lemmas eval_defs =
  handleTimeTick_def tickHeight_def tickReconnect_def floodPeersWithNewBlocks_def
  dbGetHeightHashes_def connectDbPeers_def connectDbPeer_def sendToPeer_def chan_send_def
  handleDiscoverPeers_def discoverCandidate_def
  trace_def Let_def HasAddress_def Has_def p2pPeers_Add_def time_Since_def Minute_def
  maxDuration_def minDuration_def example_defs canonical_defs

subsection \<open>Canonicalization\<close>

text \<open>
  C6. Canonicalization is idempotent: for every port and every input string,
  canonicalizing the canonical address gives the canonical address again. In particular
  \<open>1.2.3.4\<close> and \<open>1.2.3.4:9999\<close> both canonicalize to \<open>1.2.3.4:\<close> followed by
  the default port.
\<close>

theorem canonicalAddress_idempotent:
  "canonicalAddress port (canonicalAddress port s) = canonicalAddress port s
   \<and> canonicalAddress port ''1.2.3.4'' = ''1.2.3.4:'' @ formatD port
   \<and> canonicalAddress port ''1.2.3.4:9999'' = ''1.2.3.4:'' @ formatD port"
proof -
  have "canonicalAddress port (canonicalAddress port s) = canonicalAddress port s"
    using hostOf_canonicalAddress [of port s] by (simp add: canonicalAddress_def)
  moreover have "canonicalAddress port ''1.2.3.4'' = ''1.2.3.4:'' @ formatD port"
    by (simp add: canonicalAddress_def hostOf_def)
  moreover have "canonicalAddress port ''1.2.3.4:9999'' = ''1.2.3.4:'' @ formatD port"
    by (simp add: canonicalAddress_def hostOf_def)
  ultimately show ?thesis by blast
qed

theorem canonicalAddress_idempotent_witness:
  "canonicalAddress 2017 (canonicalAddress 2017 ''1.2.3.4:9999'')
     = canonicalAddress 2017 ''1.2.3.4:9999''
   \<and> canonicalAddress 2017 ''1.2.3.4'' = ''1.2.3.4:2017''
   \<and> canonicalAddress 2017 ''1.2.3.4:9999'' = ''1.2.3.4:2017''"
proof -
  have "''1.2.3.4:'' @ formatD 2017 = ''1.2.3.4:2017''"
    by (simp add: formatD_2017)
  with canonicalAddress_idempotent [of 2017 "''1.2.3.4:9999''"] show ?thesis
    by metis
qed

text \<open>
  C10. Everything after the last colon of the input is dropped: an input \<open>pre:post\<close>
  whose part \<open>post\<close> has no colon (so the colon shown is the last one) canonicalizes
  to \<open>pre\<close>, a colon and the default port; every input that contains a colon is of
  that form. The IPv6 literal \<open>::1\<close> loses its last group and becomes \<open>::\<close>
  followed by the default port.
\<close>

theorem canonicalAddress_drops_after_last_colon:
  "(CHR '':'' \<notin> set post \<longrightarrow>
      canonicalAddress port (pre @ '':'' @ post) = pre @ '':'' @ formatD port)
   \<and> (CHR '':'' \<in> set s \<longrightarrow>
      (\<exists>pre post. s = pre @ '':'' @ post \<and> CHR '':'' \<notin> set post
         \<and> canonicalAddress port s = pre @ '':'' @ formatD port))
   \<and> canonicalAddress port ''::1'' = ''::'' @ formatD port"
proof -
  have a: "\<And>pre post. CHR '':'' \<notin> set post \<Longrightarrow>
      canonicalAddress port (pre @ '':'' @ post) = pre @ '':'' @ formatD port"
    by (simp add: canonicalAddress_def hostOf_last_colon)
  have "CHR '':'' \<in> set s \<longrightarrow>
      (\<exists>pre post. s = pre @ '':'' @ post \<and> CHR '':'' \<notin> set post
         \<and> canonicalAddress port s = pre @ '':'' @ formatD port)"
  proof
    assume "CHR '':'' \<in> set s"
    from LastIndex_some [OF this] obtain pre post where
      d: "s = pre @ CHR '':'' # post" "CHR '':'' \<notin> set post" by blast
    then have "s = pre @ '':'' @ post" by simp
    with d(2) a [of post pre] show "\<exists>pre post. s = pre @ '':'' @ post
       \<and> CHR '':'' \<notin> set post \<and> canonicalAddress port s = pre @ '':'' @ formatD port"
      by blast
  qed
  moreover have "canonicalAddress port ''::1'' = ''::'' @ formatD port"
    by (simp add: canonicalAddress_def hostOf_def)
  ultimately show ?thesis using a by blast
qed

theorem canonicalAddress_drops_after_last_colon_witness:
  "CHR '':'' \<notin> set ''8080''
   \<and> canonicalAddress 2017 (''[fe80::1]'' @ '':'' @ ''8080'') = ''[fe80::1]:2017''
   \<and> canonicalAddress 2017 ''::1'' = ''::2017''"
  using canonicalAddress_drops_after_last_colon
    [where post = "''8080''" and port = 2017 and pre = "''[fe80::1]''"]
  by (simp add: formatD_2017)

subsection \<open>Sending\<close>

lemma sendToPeer_hasRoom: "hasRoom w p \<Longrightarrow> sendToPeer w p m = Returned (enqueued w p m)"
  by (simp add: sendToPeer_def chan_send_def hasRoom_def received_def enqueued_def)

lemma sendToPeer_full:
  "p < length (heap w) \<Longrightarrow> \<not> hasRoom w p \<Longrightarrow> sendToPeer w p m = Blocked w p m"
  by (simp add: sendToPeer_def chan_send_def hasRoom_def)

lemma sendToPeer_frame:
  "sendToPeer w p m = Returned w' \<or> sendToPeer w p m = Blocked w' q m' \<Longrightarrow>
     co w' = co w \<and> p2pPeers w' = p2pPeers w \<and> calls w' = calls w"
  by (auto simp: sendToPeer_def chan_send_def split: if_splits)

subsection \<open>The search-for-blocks handler\<close>

lemma handleSearchForBlocks_cases:
  "handleSearchForBlocks e w p =
     (let w2 = w\<lparr>calls := calls w @ [CallDbGetBlockchainHeight,
                  LogSearching (dbBlockchainHeight e) (chainHeight (heap w ! p))]\<rparr>
      in if \<not> p < length (heap w) then Panicked
         else if length (buf (chanToPeer (heap w ! p))) < cap (chanToPeer (heap w ! p))
         then Returned (enqueued w2 p (searchRequest e w p))
         else Blocked w2 p (searchRequest e w p))"
  by (simp add: handleSearchForBlocks_def sendToPeer_def chan_send_def trace_def
      enqueued_def received_def searchRequest_def Let_def)

lemma handleSearchForBlocks_co:
  "handleSearchForBlocks e w p = Returned w' \<or> handleSearchForBlocks e w p = Blocked w' q m
     \<Longrightarrow> co w' = co w"
  by (auto simp: handleSearchForBlocks_cases Let_def enqueued_def split: if_splits)

text \<open>
  C7. For a control message that carries the connection \<open>p\<close>, the handler builds one
  get-block-hashes request whose minimum height is the persisted chain height and whose
  maximum height is the chain height that \<open>p\<close> reported. When the buffer of \<open>p\<close>'s
  outbound channel has room, the handler returns and the queue of \<open>p\<close> is the queue
  before with that one request appended. When the buffer is full, the handler is blocked
  in the send of that same request to \<open>p\<close>, with no connection changed.
\<close>

theorem handleSearchForBlocks_request:
  "p < length (heap w) \<Longrightarrow>
     (if length (buf (chanToPeer (heap w ! p))) < cap (chanToPeer (heap w ! p))
      then \<exists>w'. handleSearchForBlocks e w p = Returned w'
             \<and> buf (chanToPeer (heap w' ! p)) =
                 buf (chanToPeer (heap w ! p)) @
                   [MsgGetBlockHashes
                     \<lparr>P2pID = p2pEphemeralID e, Root = GenesisBlockHash e,
                      Msg = p2pMsgGetBlockHashes e,
                      MinBlockHeight = dbBlockchainHeight e,
                      MaxBlockHeight = chainHeight (heap w ! p)\<rparr>]
      else \<exists>w'. handleSearchForBlocks e w p =
                  Blocked w' p
                    (MsgGetBlockHashes
                      \<lparr>P2pID = p2pEphemeralID e, Root = GenesisBlockHash e,
                       Msg = p2pMsgGetBlockHashes e,
                       MinBlockHeight = dbBlockchainHeight e,
                       MaxBlockHeight = chainHeight (heap w ! p)\<rparr>)
             \<and> heap w' = heap w)"
  by (simp add: handleSearchForBlocks_def sendToPeer_def chan_send_def trace_def Let_def)

theorem handleSearchForBlocks_request_witness:
  "0 < length (heap exampleWorld)
   \<and> (\<exists>w'. handleSearchForBlocks exampleEnv exampleWorld 0 = Returned w'
         \<and> buf (chanToPeer (heap w' ! 0)) =
             [MsgGetBlockHashes
               \<lparr>P2pID = 7, Root = ''genesis'', Msg = ''getblockhashes'',
                MinBlockHeight = 103, MaxBlockHeight = 120\<rparr>])"
  using handleSearchForBlocks_request [of 0 exampleWorld exampleEnv]
  by (simp add: example_defs)

text \<open>
  C8. The search-for-blocks handler changes no field of the coordinator. When it returns,
  \<open>lastTickBlockchainHeight\<close>, \<open>lastReconnectTime\<close>, \<open>recentlyRequestedBlocks\<close> and
  \<open>badPeers\<close> are what they were, and apart from the trace of calls (the read of the
  chain height and the log line) the state is the state before with the one request
  appended to the outbound queue of the given connection. When it is blocked in the send,
  the state apart from the trace is the state before.
\<close>

theorem handleSearchForBlocks_frame:
  "(handleSearchForBlocks e w p = Returned w' \<longrightarrow>
      lastTickBlockchainHeight (co w') = lastTickBlockchainHeight (co w)
      \<and> lastReconnectTime (co w') = lastReconnectTime (co w)
      \<and> recentlyRequestedBlocks (co w') = recentlyRequestedBlocks (co w)
      \<and> badPeers (co w') = badPeers (co w)
      \<and> w'\<lparr>calls := calls w\<rparr> = enqueued w p (searchRequest e w p))
   \<and> (handleSearchForBlocks e w p = Blocked w' q m \<longrightarrow>
      w'\<lparr>calls := calls w\<rparr> = w)"
  by (auto simp add: handleSearchForBlocks_cases Let_def enqueued_def split: if_splits)

theorem handleSearchForBlocks_frame_witness:
  "handleSearchForBlocks exampleEnv exampleWorld 0 =
     Returned ((enqueued exampleWorld 0 (searchRequest exampleEnv exampleWorld 0))
       \<lparr>calls := [CallDbGetBlockchainHeight, LogSearching 103 120]\<rparr>)
   \<and> co (enqueued exampleWorld 0 (searchRequest exampleEnv exampleWorld 0)) = exampleCo
   \<and> heap (enqueued exampleWorld 0 (searchRequest exampleEnv exampleWorld 0)) =
       [received exampleConn (searchRequest exampleEnv exampleWorld 0)]"
  using handleSearchForBlocks_frame [of exampleEnv exampleWorld 0
    "(enqueued exampleWorld 0 (searchRequest exampleEnv exampleWorld 0))
       \<lparr>calls := [CallDbGetBlockchainHeight, LogSearching 103 120]\<rparr>"]
  by (simp add: handleSearchForBlocks_cases enqueued_def searchRequest_def example_defs
      Let_def)

subsection \<open>Discovery and reconnection only extend the state\<close>

lemma grows_refl: "grows w w"
  by (simp add: grows_def)

lemma grows_trans:
  assumes "grows w1 w2" and "grows w2 w3"
  shows "grows w1 w3"
proof -
  from assms obtain a b where a: "heap w2 = heap w1 @ a" and b: "heap w3 = heap w2 @ b"
    by (auto simp: grows_def prefix_def)
  from assms have "\<forall>c \<in> set a. buf (chanToPeer c) = []" "\<forall>c \<in> set b. buf (chanToPeer c) = []"
    using a b by (auto simp: grows_def)
  then have "\<forall>c \<in> set (drop (length (heap w1)) (heap w3)). buf (chanToPeer c) = []"
    using a b by auto
  with assms show ?thesis
    unfolding grows_def by (metis prefix_order.trans)
qed

lemma grows_trace: "grows w (trace w c)"
  by (simp add: grows_def trace_def)

lemma grows_HasAddress: "grows w w' \<Longrightarrow> HasAddress w a \<Longrightarrow> HasAddress w' a"
proof -
  assume g: "grows w w'" and h: "HasAddress w a"
  from g obtain hs ps where hs: "heap w' = heap w @ hs" and ps: "p2pPeers w' = p2pPeers w @ ps"
    by (auto simp: grows_def prefix_def)
  from h obtain p where "p \<in> set (p2pPeers w)" "p < length (heap w)" "address (heap w ! p) = a"
    by (auto simp: HasAddress_def list_ex_iff)
  then show ?thesis
    by (auto simp: HasAddress_def list_ex_iff hs ps nth_append)
qed

lemma discoverCandidate_grows: "grows w (snd (discoverCandidate e w c))"
  by (simp add: discoverCandidate_def Let_def grows_def trace_def p2pPeers_Add_def
      make_chan_def)

lemma connectDbPeer_grows: "grows w (connectDbPeer e w peer)"
  by (simp add: connectDbPeer_def Let_def grows_def trace_def p2pPeers_Add_def make_chan_def)

lemma discoverLoop_grows: "grows w (discoverLoop e w addresses)"
proof (induction addresses arbitrary: w)
  case Nil
  show ?case by (simp add: grows_refl)
next
  case (Cons c addresses)
  obtain k w1 where s: "discoverCandidate e w c = (k, w1)"
    by (cases "discoverCandidate e w c")
  have g: "grows w w1" using discoverCandidate_grows [of w e c] s by simp
  show ?case
  proof (cases k)
    case Continue
    with s g Cons.IH [of w1] show ?thesis by (auto intro: grows_trans)
  next
    case Return
    with s g show ?thesis by simp
  qed
qed

lemma connectLoop_grows: "grows w (connectLoop e w peers)"
proof (induction peers arbitrary: w)
  case Nil
  show ?case by (simp add: grows_refl)
next
  case (Cons peer peers)
  from connectDbPeer_grows [of w e peer] Cons.IH [of "connectDbPeer e w peer"]
  show ?case by (auto intro: grows_trans)
qed

lemma connectDbPeers_grows: "grows w (connectDbPeers e w)"
  unfolding connectDbPeers_def
  by (rule grows_trans [OF grows_trace connectLoop_grows])

lemma connectDbPeers_calls:
  "\<exists>tr. calls (connectDbPeers e w) = calls w @ CallDbGetSavedPeers # tr"
proof -
  from connectLoop_grows [of "trace w CallDbGetSavedPeers" e "dbSavedPeers e"]
  show ?thesis
    by (auto simp: grows_def prefix_def connectDbPeers_def trace_def)
qed

subsection \<open>The discover-peers handler and a failing candidate\<close>

text \<open>
  C1. The claim is that a candidate whose resolution or dial fails is skipped and the
  candidates after it are still processed. The handler leaves through \<^verbatim>\<open>return\<close>
  at the first failure instead. With a name that does not resolve first in the batch, the
  only call made is the failed resolution; with a host that refuses the connection first,
  the calls are its resolution and its dial. In both batches the second candidate, which
  would be dialled and registered when it is alone in a batch, is never looked at.
\<close>

theorem discover_returns_at_first_failure:
  "handleDiscoverPeers exampleEnv exampleWorld [''bad'', ''10.0.0.1'']
     = trace exampleWorld (CallResolveTCPAddr ''bad:2017'')
   \<and> calls (handleDiscoverPeers exampleEnv exampleWorld [''down:80'', ''10.0.0.1''])
     = [CallResolveTCPAddr ''down:2017'', CallDialTCP ''down:2017'']
   \<and> calls (handleDiscoverPeers exampleEnv exampleWorld [''10.0.0.1''])
     = [CallResolveTCPAddr ''10.0.0.1:2017'', CallDialTCP ''10.0.0.1:2017'',
        CallGoHandleConnection 1, LogDetected ''10.0.0.1:2017'',
        CallDbSavePeer ''10.0.0.1:2017'']"
  by (simp add: eval_defs)

subsection \<open>Which addresses are dialled\<close>

lemma dials_append: "dials (xs @ ys) = dials xs @ dials ys"
  by (induction xs rule: dials.induct) auto

lemma discoverCandidate_dials:
  "\<exists>tr. calls (snd (discoverCandidate e w c)) = calls w @ tr
     \<and> (\<forall>a \<in> set (dials tr). a = canonicalAddress (DefaultP2PPort e) c
            \<and> \<not> HasAddress w a \<and> \<not> Has (badPeers (co w)) a)"
  by (simp add: discoverCandidate_def Let_def trace_def p2pPeers_Add_def)

lemma connectDbPeer_dials:
  "\<exists>tr. calls (connectDbPeer e w peer) = calls w @ tr
     \<and> (\<forall>a \<in> set (dials tr). a = peer \<and> \<not> HasAddress w a \<and> \<not> Has (badPeers (co w)) a)"
  by (simp add: connectDbPeer_def Let_def trace_def p2pPeers_Add_def)

lemma discoverLoop_dials:
  "\<exists>tr. calls (discoverLoop e w addresses) = calls w @ tr
     \<and> (\<forall>a \<in> set (dials tr). \<not> HasAddress w a \<and> \<not> Has (badPeers (co w)) a)"
proof (induction addresses arbitrary: w)
  case Nil
  show ?case by simp
next
  case (Cons c addresses)
  obtain k w1 where s: "discoverCandidate e w c = (k, w1)"
    by (cases "discoverCandidate e w c")
  have g: "grows w w1" using discoverCandidate_grows [of w e c] s by simp
  from discoverCandidate_dials [of e w c] s obtain tr1 where
    t1: "calls w1 = calls w @ tr1" and
    d1: "\<forall>a \<in> set (dials tr1). \<not> HasAddress w a \<and> \<not> Has (badPeers (co w)) a"
    by auto
  show ?case
  proof (cases k)
    case Return
    with s t1 d1 show ?thesis by auto
  next
    case Continue
    from Cons.IH [of w1] obtain tr2 where
      t2: "calls (discoverLoop e w1 addresses) = calls w1 @ tr2" and
      d2: "\<forall>a \<in> set (dials tr2). \<not> HasAddress w1 a \<and> \<not> Has (badPeers (co w1)) a"
      by auto
    from g have c: "co w1 = co w" by (simp add: grows_def)
    from d2 g c have "\<forall>a \<in> set (dials tr2). \<not> HasAddress w a \<and> \<not> Has (badPeers (co w)) a"
      by (auto dest: grows_HasAddress)
    with d1 have "\<forall>a \<in> set (dials (tr1 @ tr2)).
        \<not> HasAddress w a \<and> \<not> Has (badPeers (co w)) a"
      by (auto simp: dials_append)
    moreover from Continue s t1 t2
    have "calls (discoverLoop e w (c # addresses)) = calls w @ (tr1 @ tr2)" by simp
    ultimately show ?thesis by blast
  qed
qed

lemma connectLoop_dials:
  "\<exists>tr. calls (connectLoop e w peers) = calls w @ tr
     \<and> (\<forall>a \<in> set (dials tr). \<not> HasAddress w a \<and> \<not> Has (badPeers (co w)) a)"
proof (induction peers arbitrary: w)
  case Nil
  show ?case by simp
next
  case (Cons peer peers)
  define w1 where "w1 = connectDbPeer e w peer"
  have g: "grows w w1" unfolding w1_def by (rule connectDbPeer_grows)
  from connectDbPeer_dials [of e w peer] obtain tr1 where
    t1: "calls w1 = calls w @ tr1" and
    d1: "\<forall>a \<in> set (dials tr1). \<not> HasAddress w a \<and> \<not> Has (badPeers (co w)) a"
    unfolding w1_def by auto
  from Cons.IH [of w1] obtain tr2 where
    t2: "calls (connectLoop e w1 peers) = calls w1 @ tr2" and
    d2: "\<forall>a \<in> set (dials tr2). \<not> HasAddress w1 a \<and> \<not> Has (badPeers (co w1)) a"
    by auto
  from g have c: "co w1 = co w" by (simp add: grows_def)
  from d2 g c have "\<forall>a \<in> set (dials tr2). \<not> HasAddress w a \<and> \<not> Has (badPeers (co w)) a"
    by (auto dest: grows_HasAddress)
  with d1 have "\<forall>a \<in> set (dials (tr1 @ tr2)).
      \<not> HasAddress w a \<and> \<not> Has (badPeers (co w)) a"
    by (auto simp: dials_append)
  moreover from t1 t2
  have "calls (connectLoop e w (peer # peers)) = calls w @ (tr1 @ tr2)"
    by (simp add: w1_def)
  ultimately show ?case by blast
qed

lemma connectDbPeers_dials:
  "\<exists>tr. calls (connectDbPeers e w) = calls w @ tr
     \<and> (\<forall>a \<in> set (dials tr). \<not> HasAddress w a \<and> \<not> Has (badPeers (co w)) a)"
proof -
  define w0 where "w0 = trace w CallDbGetSavedPeers"
  from connectLoop_dials [of e w0 "dbSavedPeers e"] obtain tr where
    t: "calls (connectLoop e w0 (dbSavedPeers e)) = calls w0 @ tr" and
    d: "\<forall>a \<in> set (dials tr). \<not> HasAddress w0 a \<and> \<not> Has (badPeers (co w0)) a"
    by auto
  have h: "HasAddress w0 = HasAddress w" "co w0 = co w"
    "calls w0 = calls w @ [CallDbGetSavedPeers]"
    by (auto simp: w0_def trace_def HasAddress_def)
  from t h have "calls (connectDbPeers e w) = calls w @ (CallDbGetSavedPeers # tr)"
    by (simp add: connectDbPeers_def w0_def)
  moreover from d h
  have "\<forall>a \<in> set (dials (CallDbGetSavedPeers # tr)).
      \<not> HasAddress w a \<and> \<not> Has (badPeers (co w)) a"
    by simp
  ultimately show ?thesis by blast
qed

text \<open>
  C2. Neither discovery nor reconnection dials an address that is in \<open>badPeers\<close> or
  registered. In any state, the iteration for one candidate makes a dial attempt only for
  the candidate's canonical address and only if that address is neither registered nor
  quarantined in that state, the state in which the check is made; the same holds for the
  iteration for one saved address. Over a whole run of either handler, every address
  that is dialled was neither registered nor quarantined when the handler started.
\<close>

theorem dial_only_unknown_and_unquarantined:
  "(\<exists>tr. calls (snd (discoverCandidate e w candidate)) = calls w @ tr
      \<and> (\<forall>a \<in> set (dials tr). a = canonicalAddress (DefaultP2PPort e) candidate
             \<and> \<not> HasAddress w a \<and> \<not> Has (badPeers (co w)) a))
   \<and> (\<exists>tr. calls (connectDbPeer e w peer) = calls w @ tr
      \<and> (\<forall>a \<in> set (dials tr). a = peer \<and> \<not> HasAddress w a \<and> \<not> Has (badPeers (co w)) a))
   \<and> (\<exists>tr. calls (handleDiscoverPeers e w addresses) = calls w @ tr
      \<and> (\<forall>a \<in> set (dials tr). \<not> HasAddress w a \<and> \<not> Has (badPeers (co w)) a))
   \<and> (\<exists>tr. calls (connectDbPeers e w) = calls w @ tr
      \<and> (\<forall>a \<in> set (dials tr). \<not> HasAddress w a \<and> \<not> Has (badPeers (co w)) a))"
  using discoverCandidate_dials [of e w candidate] connectDbPeer_dials [of e w peer]
    discoverLoop_dials [of e w addresses] connectDbPeers_dials [of e w]
  unfolding handleDiscoverPeers_def by blast

theorem dial_only_unknown_and_unquarantined_witness:
  "calls (handleDiscoverPeers exampleEnv exampleWorld
            [''6.6.6.6:9'', ''10.0.0.2'', ''10.0.0.1:80'']) =
     [CallResolveTCPAddr ''10.0.0.1:2017'', CallDialTCP ''10.0.0.1:2017'',
      CallGoHandleConnection 1, LogDetected ''10.0.0.1:2017'',
      CallDbSavePeer ''10.0.0.1:2017'']
   \<and> Has (badPeers (co exampleWorld)) ''6.6.6.6:2017''
   \<and> HasAddress exampleWorld ''10.0.0.2:2017''
   \<and> \<not> HasAddress exampleWorld ''10.0.0.1:2017''
   \<and> \<not> Has (badPeers (co exampleWorld)) ''10.0.0.1:2017''
   \<and> calls (connectDbPeers exampleEnv exampleWorld) =
     [CallDbGetSavedPeers, CallDial ''10.0.0.1:7777'', CallGoHandleConnection 1,
      CallDial ''10.0.0.9:2017'', LogErrorConnecting ''10.0.0.9:2017'']"
proof -
  let ?l = "[''6.6.6.6:9'', ''10.0.0.2'', ''10.0.0.1:80'']"
  let ?tr = "[CallResolveTCPAddr ''10.0.0.1:2017'', CallDialTCP ''10.0.0.1:2017'',
      CallGoHandleConnection 1, LogDetected ''10.0.0.1:2017'',
      CallDbSavePeer ''10.0.0.1:2017'']"
  have c: "calls (handleDiscoverPeers exampleEnv exampleWorld ?l) = ?tr"
    by (simp add: eval_defs)
  have k: "calls (connectDbPeers exampleEnv exampleWorld) =
     [CallDbGetSavedPeers, CallDial ''10.0.0.1:7777'', CallGoHandleConnection 1,
      CallDial ''10.0.0.9:2017'', LogErrorConnecting ''10.0.0.9:2017'']"
    by (simp add: eval_defs)
  have s: "Has (badPeers (co exampleWorld)) ''6.6.6.6:2017''"
    "HasAddress exampleWorld ''10.0.0.2:2017''"
    by (simp_all add: eval_defs)
  from dial_only_unknown_and_unquarantined [of exampleEnv exampleWorld _ _ ?l]
  obtain tr where
    "calls (handleDiscoverPeers exampleEnv exampleWorld ?l) = calls exampleWorld @ tr"
    and d: "\<forall>a \<in> set (dials tr).
      \<not> HasAddress exampleWorld a \<and> \<not> Has (badPeers (co exampleWorld)) a"
    by blast
  with c have "tr = ?tr" by (simp add: exampleWorld_def)
  with d have "\<not> HasAddress exampleWorld ''10.0.0.1:2017''
     \<and> \<not> Has (badPeers (co exampleWorld)) ''10.0.0.1:2017''" by simp
  with c k s show ?thesis by blast
qed

subsection \<open>The flood\<close>

lemma floodLoop_frame:
  "floodLoop w ps m = Returned w' \<or> floodLoop w ps m = Blocked w' q m' \<Longrightarrow>
     co w' = co w \<and> p2pPeers w' = p2pPeers w \<and> calls w' = calls w"
proof (induction ps arbitrary: w)
  case Nil
  then show ?case by auto
next
  case (Cons p ps)
  show ?case
  proof (cases "sendToPeer w p m")
    case (Returned w1)
    with Cons.prems have "floodLoop w1 ps m = Returned w' \<or> floodLoop w1 ps m = Blocked w' q m'"
      by simp
    from Cons.IH [OF this] sendToPeer_frame [of w p m w1] Returned show ?thesis by simp
  next
    case (Blocked w1 q1 m1)
    with Cons.prems have "w' = w1" by simp
    with sendToPeer_frame [of w p m w1 q1 m1] Blocked show ?thesis by simp
  next
    case Panicked
    with Cons.prems show ?thesis by simp
  qed
qed

lemma floodLoop_all:
  "distinct ps \<Longrightarrow> \<forall>p \<in> set ps. hasRoom w p \<Longrightarrow>
     \<exists>w'. floodLoop w ps m = Returned w'
        \<and> length (heap w') = length (heap w)
        \<and> (\<forall>i < length (heap w).
              heap w' ! i = (if i \<in> set ps then received (heap w ! i) m else heap w ! i))"
proof (induction ps arbitrary: w)
  case Nil
  show ?case by simp
next
  case (Cons p ps)
  define w1 where "w1 = enqueued w p m"
  from Cons.prems have p: "hasRoom w p" "p \<notin> set ps" "distinct ps" by auto
  have s: "sendToPeer w p m = Returned w1"
    unfolding w1_def using p(1) by (rule sendToPeer_hasRoom)
  have len: "length (heap w1) = length (heap w)" by (simp add: w1_def enqueued_def)
  have nth: "\<And>i. i \<noteq> p \<Longrightarrow> heap w1 ! i = heap w ! i"
    by (simp add: w1_def enqueued_def)
  have nthp: "heap w1 ! p = received (heap w ! p) m"
    using p(1) by (simp add: w1_def enqueued_def hasRoom_def)
  have "\<forall>q \<in> set ps. hasRoom w1 q"
  proof
    fix q assume q: "q \<in> set ps"
    with p(2) have "q \<noteq> p" by auto
    with Cons.prems(2) q show "hasRoom w1 q" by (simp add: hasRoom_def len nth)
  qed
  from Cons.IH [OF p(3) this] obtain w' where
    r: "floodLoop w1 ps m = Returned w'" and
    l: "length (heap w') = length (heap w1)" and
    h: "\<forall>i < length (heap w1).
          heap w' ! i = (if i \<in> set ps then received (heap w1 ! i) m else heap w1 ! i)"
    by blast
  have "\<forall>i < length (heap w).
          heap w' ! i = (if i \<in> set (p # ps) then received (heap w ! i) m else heap w ! i)"
  proof (intro allI impI)
    fix i assume i: "i < length (heap w)"
    show "heap w' ! i = (if i \<in> set (p # ps) then received (heap w ! i) m else heap w ! i)"
    proof (cases "i = p")
      case True
      with h i len p(2) nthp show ?thesis by simp
    next
      case False
      with h i len nth show ?thesis by simp
    qed
  qed
  with s r l len show ?case by simp
qed

lemma floodLoop_blocked:
  "distinct (pre @ q # post) \<Longrightarrow> \<forall>p \<in> set pre. hasRoom w p \<Longrightarrow> q < length (heap w)
   \<Longrightarrow> \<not> hasRoom w q \<Longrightarrow>
     \<exists>w'. floodLoop w (pre @ q # post) m = Blocked w' q m
        \<and> co w' = co w
        \<and> length (heap w') = length (heap w)
        \<and> (\<forall>i < length (heap w).
              heap w' ! i = (if i \<in> set pre then received (heap w ! i) m else heap w ! i))"
proof (induction pre arbitrary: w)
  case Nil
  then show ?case by (simp add: sendToPeer_full)
next
  case (Cons p pre)
  define w1 where "w1 = enqueued w p m"
  from Cons.prems have p: "hasRoom w p" "p \<notin> set pre" "p \<noteq> q" "distinct (pre @ q # post)"
    by auto
  have s: "sendToPeer w p m = Returned w1"
    unfolding w1_def using p(1) by (rule sendToPeer_hasRoom)
  have len: "length (heap w1) = length (heap w)" by (simp add: w1_def enqueued_def)
  have nth: "\<And>i. i \<noteq> p \<Longrightarrow> heap w1 ! i = heap w ! i"
    by (simp add: w1_def enqueued_def)
  have nthp: "heap w1 ! p = received (heap w ! p) m"
    using p(1) by (simp add: w1_def enqueued_def hasRoom_def)
  have cow: "co w1 = co w" by (simp add: w1_def enqueued_def)
  have a: "\<forall>r \<in> set pre. hasRoom w1 r"
  proof
    fix r assume r: "r \<in> set pre"
    with p(2) have "r \<noteq> p" by auto
    with Cons.prems(2) r show "hasRoom w1 r" by (simp add: hasRoom_def len nth)
  qed
  from Cons.prems(3,4) p(3) have b: "q < length (heap w1)" "\<not> hasRoom w1 q"
    by (simp_all add: hasRoom_def len nth)
  from Cons.IH [OF p(4) a b] obtain w' where
    r: "floodLoop w1 (pre @ q # post) m = Blocked w' q m" and
    c: "co w' = co w1" and
    l: "length (heap w') = length (heap w1)" and
    h: "\<forall>i < length (heap w1).
          heap w' ! i = (if i \<in> set pre then received (heap w1 ! i) m else heap w1 ! i)"
    by blast
  have "\<forall>i < length (heap w).
          heap w' ! i = (if i \<in> set (p # pre) then received (heap w ! i) m else heap w ! i)"
  proof (intro allI impI)
    fix i assume i: "i < length (heap w)"
    show "heap w' ! i = (if i \<in> set (p # pre) then received (heap w ! i) m else heap w ! i)"
    proof (cases "i = p")
      case True
      with h i len p(2) nthp show ?thesis by simp
    next
      case False
      with h i len nth show ?thesis by simp
    qed
  qed
  with s r l len c cow show ?case by simp
qed

subsection \<open>The two steps of the tick handler\<close>

lemma time_Since_ge: "(10 * Minute \<le> time_Since now t) = (600000000000 \<le> now - t)"
  by (simp add: time_Since_def Minute_def maxDuration_def minDuration_def Let_def)

lemma tickHeight_nogrowth:
  "dbBlockchainHeight e \<le> lastTickBlockchainHeight (co w) \<Longrightarrow>
     tickHeight e w = Returned (trace w CallDbGetBlockchainHeight)"
  by (simp add: tickHeight_def Let_def trace_def)

lemma tickHeight_frame:
  assumes "tickHeight e w = Returned w1 \<or> tickHeight e w = Blocked w1 q m"
  shows "lastTickBlockchainHeight (co w) \<le> lastTickBlockchainHeight (co w1)
     \<and> lastReconnectTime (co w1) = lastReconnectTime (co w)
     \<and> (\<exists>tr. calls w1 = calls w @ tr \<and> CallDbGetSavedPeers \<notin> set tr)"
proof (cases "dbBlockchainHeight e \<le> lastTickBlockchainHeight (co w)")
  case True
  with assms tickHeight_nogrowth [OF True] show ?thesis by (auto simp: trace_def)
next
  case False
  define w0 where "w0 = trace (trace w CallDbGetBlockchainHeight)
    (CallDbGetHeightHashes (lastTickBlockchainHeight (co w)) (dbBlockchainHeight e))"
  define msg where "msg = MsgBlockHashes \<lparr>P2pID = p2pEphemeralID e, Root = GenesisBlockHash e,
     Msg = p2pMsgBlockHashes e,
     Hashes = dbGetHeightHashes e (lastTickBlockchainHeight (co w)) (dbBlockchainHeight e)\<rparr>"
  have eq: "tickHeight e w =
     (case floodLoop w0 (p2pPeers w0) msg of
        Returned w2 \<Rightarrow> Returned (w2\<lparr>co := (co w2)\<lparr>lastTickBlockchainHeight := dbBlockchainHeight e\<rparr>\<rparr>)
      | Blocked w2 q m \<Rightarrow> Blocked w2 q m
      | Panicked \<Rightarrow> Panicked)"
    using False
    by (simp add: tickHeight_def floodPeersWithNewBlocks_def Let_def w0_def msg_def trace_def)
  have w0: "co w0 = co w" "calls w0 = calls w @ [CallDbGetBlockchainHeight,
     CallDbGetHeightHashes (lastTickBlockchainHeight (co w)) (dbBlockchainHeight e)]"
    by (simp_all add: w0_def trace_def)
  show ?thesis
  proof (cases "floodLoop w0 (p2pPeers w0) msg")
    case (Returned w2)
    from floodLoop_frame [of w0 "p2pPeers w0" msg w2] Returned
    have "co w2 = co w0" "calls w2 = calls w0" by simp_all
    with assms eq Returned w0 False show ?thesis by auto
  next
    case (Blocked w2 q2 m2)
    from floodLoop_frame [of w0 "p2pPeers w0" msg w2 q2 m2] Blocked
    have "co w2 = co w0" "calls w2 = calls w0" by simp_all
    with assms eq Blocked w0 show ?thesis by auto
  next
    case Panicked
    with assms eq show ?thesis by simp
  qed
qed

lemma tickHeight_growth:
  assumes "lastTickBlockchainHeight (co w) < dbBlockchainHeight e"
    and "distinct (p2pPeers w)" and "\<forall>p \<in> set (p2pPeers w). hasRoom w p"
  shows "\<exists>w1. tickHeight e w = Returned w1
     \<and> lastTickBlockchainHeight (co w1) = dbBlockchainHeight e
     \<and> length (heap w1) = length (heap w)
     \<and> (\<forall>i < length (heap w). heap w1 ! i =
          (if i \<in> set (p2pPeers w)
           then received (heap w ! i)
             (MsgBlockHashes \<lparr>P2pID = p2pEphemeralID e, Root = GenesisBlockHash e,
                Msg = p2pMsgBlockHashes e,
                Hashes = map (dbHashAt e)
                  [lastTickBlockchainHeight (co w) + 1..dbBlockchainHeight e]\<rparr>)
           else heap w ! i))"
proof -
  define w0 where "w0 = trace (trace w CallDbGetBlockchainHeight)
    (CallDbGetHeightHashes (lastTickBlockchainHeight (co w)) (dbBlockchainHeight e))"
  define msg where "msg = MsgBlockHashes \<lparr>P2pID = p2pEphemeralID e, Root = GenesisBlockHash e,
     Msg = p2pMsgBlockHashes e,
     Hashes = map (dbHashAt e) [lastTickBlockchainHeight (co w) + 1..dbBlockchainHeight e]\<rparr>"
  have eq: "tickHeight e w =
     (case floodLoop w0 (p2pPeers w0) msg of
        Returned w2 \<Rightarrow> Returned (w2\<lparr>co := (co w2)\<lparr>lastTickBlockchainHeight := dbBlockchainHeight e\<rparr>\<rparr>)
      | Blocked w2 q m \<Rightarrow> Blocked w2 q m
      | Panicked \<Rightarrow> Panicked)"
    using assms(1)
    by (simp add: tickHeight_def floodPeersWithNewBlocks_def dbGetHeightHashes_def Let_def
        w0_def msg_def trace_def)
  have w0: "heap w0 = heap w" "p2pPeers w0 = p2pPeers w"
    by (simp_all add: w0_def trace_def)
  from assms(3) have "\<forall>p \<in> set (p2pPeers w0). hasRoom w0 p"
    by (simp add: hasRoom_def w0)
  from floodLoop_all [OF _ this, of msg] assms(2) w0 obtain w2 where
    "floodLoop w0 (p2pPeers w0) msg = Returned w2"
    "length (heap w2) = length (heap w)"
    "\<forall>i < length (heap w). heap w2 ! i =
        (if i \<in> set (p2pPeers w) then received (heap w ! i) msg else heap w ! i)"
    by auto
  with eq show ?thesis by (simp add: msg_def)
qed

lemma tickHeight_blocked:
  assumes "lastTickBlockchainHeight (co w) < dbBlockchainHeight e"
    and "distinct (p2pPeers w)" and "\<forall>p \<in> set (p2pPeers w). p < length (heap w)"
    and "\<not> (\<forall>p \<in> set (p2pPeers w). hasRoom w p)"
  shows "\<exists>w' pre q post. p2pPeers w = pre @ q # post
     \<and> (\<forall>p \<in> set pre. hasRoom w p) \<and> \<not> hasRoom w q
     \<and> tickHeight e w =
         Blocked w' q
           (MsgBlockHashes \<lparr>P2pID = p2pEphemeralID e, Root = GenesisBlockHash e,
              Msg = p2pMsgBlockHashes e,
              Hashes = map (dbHashAt e)
                [lastTickBlockchainHeight (co w) + 1..dbBlockchainHeight e]\<rparr>)
     \<and> lastTickBlockchainHeight (co w') = lastTickBlockchainHeight (co w)
     \<and> (\<forall>i < length (heap w). heap w' ! i =
          (if i \<in> set pre
           then received (heap w ! i)
             (MsgBlockHashes \<lparr>P2pID = p2pEphemeralID e, Root = GenesisBlockHash e,
                Msg = p2pMsgBlockHashes e,
                Hashes = map (dbHashAt e)
                  [lastTickBlockchainHeight (co w) + 1..dbBlockchainHeight e]\<rparr>)
           else heap w ! i))"
proof -
  define w0 where "w0 = trace (trace w CallDbGetBlockchainHeight)
    (CallDbGetHeightHashes (lastTickBlockchainHeight (co w)) (dbBlockchainHeight e))"
  define msg where "msg = MsgBlockHashes \<lparr>P2pID = p2pEphemeralID e, Root = GenesisBlockHash e,
     Msg = p2pMsgBlockHashes e,
     Hashes = map (dbHashAt e) [lastTickBlockchainHeight (co w) + 1..dbBlockchainHeight e]\<rparr>"
  have eq: "tickHeight e w =
     (case floodLoop w0 (p2pPeers w0) msg of
        Returned w2 \<Rightarrow> Returned (w2\<lparr>co := (co w2)\<lparr>lastTickBlockchainHeight := dbBlockchainHeight e\<rparr>\<rparr>)
      | Blocked w2 q m \<Rightarrow> Blocked w2 q m
      | Panicked \<Rightarrow> Panicked)"
    using assms(1)
    by (simp add: tickHeight_def floodPeersWithNewBlocks_def dbGetHeightHashes_def Let_def
        w0_def msg_def trace_def)
  have w0: "heap w0 = heap w" "p2pPeers w0 = p2pPeers w" "co w0 = co w"
    by (simp_all add: w0_def trace_def)
  from assms(4) have "\<exists>q \<in> set (p2pPeers w). \<not> hasRoom w q" by blast
  from split_list_first_prop [OF this] obtain pre q post where
    d: "p2pPeers w = pre @ q # post" "\<not> hasRoom w q" "\<forall>p \<in> set pre. hasRoom w p"
    by auto
  from d(1) assms(3) have v: "q < length (heap w)" by simp
  have r: "\<forall>p \<in> set pre. hasRoom w0 p" "q < length (heap w0)" "\<not> hasRoom w0 q"
    using d v by (simp_all add: hasRoom_def w0)
  from assms(2) d(1) have "distinct (pre @ q # post)" by simp
  from floodLoop_blocked [OF this r, of msg] obtain w' where
    "floodLoop w0 (pre @ q # post) msg = Blocked w' q msg" "co w' = co w0"
    "\<forall>i < length (heap w0). heap w' ! i =
        (if i \<in> set pre then received (heap w0 ! i) msg else heap w0 ! i)"
    by blast
  with eq d w0 have "p2pPeers w = pre @ q # post
     \<and> (\<forall>p \<in> set pre. hasRoom w p) \<and> \<not> hasRoom w q
     \<and> tickHeight e w = Blocked w' q msg
     \<and> lastTickBlockchainHeight (co w') = lastTickBlockchainHeight (co w)
     \<and> (\<forall>i < length (heap w). heap w' ! i =
          (if i \<in> set pre then received (heap w ! i) msg else heap w ! i))"
    by simp
  then show ?thesis unfolding msg_def by blast
qed

lemma tickReconnect_due:
  "600000000000 \<le> clockAtSince e - lastReconnectTime (co w) \<Longrightarrow>
     tickReconnect e w =
       connectDbPeers e (w\<lparr>co := (co w)\<lparr>lastReconnectTime := clockAtNow e\<rparr>\<rparr>)"
  by (simp add: tickReconnect_def time_Since_ge)

lemma tickReconnect_not_due:
  "\<not> 600000000000 \<le> clockAtSince e - lastReconnectTime (co w) \<Longrightarrow> tickReconnect e w = w"
  by (simp add: tickReconnect_def time_Since_ge)

lemma tickReconnect_frame:
  "lastTickBlockchainHeight (co (tickReconnect e w)) = lastTickBlockchainHeight (co w)
   \<and> prefix (heap w) (heap (tickReconnect e w))
   \<and> (\<forall>c \<in> set (drop (length (heap w)) (heap (tickReconnect e w))). buf (chanToPeer c) = [])"
proof (cases "600000000000 \<le> clockAtSince e - lastReconnectTime (co w)")
  case True
  from connectDbPeers_grows [of "w\<lparr>co := (co w)\<lparr>lastReconnectTime := clockAtNow e\<rparr>\<rparr>" e]
    tickReconnect_due [OF True]
  show ?thesis by (simp add: grows_def)
next
  case False
  from tickReconnect_not_due [OF False] show ?thesis by simp
qed

lemma connectLoop_no_hash_query:
  "\<exists>tr. calls (connectLoop e w peers) = calls w @ tr
     \<and> (\<forall>a b. CallDbGetHeightHashes a b \<notin> set tr)"
proof (induction peers arbitrary: w)
  case Nil
  show ?case by simp
next
  case (Cons peer peers)
  have "\<exists>tr. calls (connectDbPeer e w peer) = calls w @ tr
     \<and> (\<forall>a b. CallDbGetHeightHashes a b \<notin> set tr)"
    by (simp add: connectDbPeer_def Let_def trace_def p2pPeers_Add_def)
  then obtain tr1 where t1: "calls (connectDbPeer e w peer) = calls w @ tr1"
    "\<forall>a b. CallDbGetHeightHashes a b \<notin> set tr1" by blast
  from Cons.IH [of "connectDbPeer e w peer"] obtain tr2 where
    t2: "calls (connectLoop e (connectDbPeer e w peer) peers) = calls (connectDbPeer e w peer) @ tr2"
    "\<forall>a b. CallDbGetHeightHashes a b \<notin> set tr2" by blast
  from t1 t2 have "calls (connectLoop e w (peer # peers)) = calls w @ (tr1 @ tr2)
     \<and> (\<forall>a b. CallDbGetHeightHashes a b \<notin> set (tr1 @ tr2))" by simp
  then show ?case by blast
qed

lemma tickReconnect_no_hash_query:
  "\<exists>tr. calls (tickReconnect e w) = calls w @ tr
     \<and> (\<forall>a b. CallDbGetHeightHashes a b \<notin> set tr)"
proof (cases "600000000000 \<le> clockAtSince e - lastReconnectTime (co w)")
  case True
  define w0 where "w0 = trace (w\<lparr>co := (co w)\<lparr>lastReconnectTime := clockAtNow e\<rparr>\<rparr>) CallDbGetSavedPeers"
  from connectLoop_no_hash_query [of e w0 "dbSavedPeers e"] obtain tr where
    "calls (connectLoop e w0 (dbSavedPeers e)) = calls w0 @ tr"
    "\<forall>a b. CallDbGetHeightHashes a b \<notin> set tr" by blast
  then have "calls (tickReconnect e w) = calls w @ (CallDbGetSavedPeers # tr)
     \<and> (\<forall>a b. CallDbGetHeightHashes a b \<notin> set (CallDbGetSavedPeers # tr))"
    by (simp add: tickReconnect_due [OF True] connectDbPeers_def w0_def trace_def)
  then show ?thesis by blast
next
  case False
  then show ?thesis by (simp add: tickReconnect_not_due)
qed

subsection \<open>The tick handler: height growth\<close>

text \<open>
  C3. On a tick at which the persisted height is greater than
  \<open>lastTickBlockchainHeight\<close>, and every registered connection has room in its outbound
  buffer (a send on a full buffer blocks until the peer's worker receives), the handler
  returns, every connection registered at that moment has received exactly one message
  more, the block-hashes message whose hash list is the hashes at the heights from
  \<open>lastTickBlockchainHeight + 1\<close> up to the new height in order, every connection that is
  not registered is unchanged, and \<open>lastTickBlockchainHeight\<close> is the new height. The
  registry is a Go map, so its keys are distinct. On a tick at which the height has not
  grown the handler returns and no connection has changed. When the height has grown and
  some registered connection has a full buffer, the handler is blocked in the send of
  that same message to the first such connection in the order of the iteration: the
  connections before it have received the message once, no other connection has
  changed, and \<open>lastTickBlockchainHeight\<close> is not yet advanced.
\<close>

theorem handleTimeTick_flood:
  "(lastTickBlockchainHeight (co w) < dbBlockchainHeight e \<and> distinct (p2pPeers w)
      \<and> (\<forall>p \<in> set (p2pPeers w). hasRoom w p) \<longrightarrow>
      (\<exists>w'. handleTimeTick e w = Returned w'
         \<and> lastTickBlockchainHeight (co w') = dbBlockchainHeight e
         \<and> (\<forall>p \<in> set (p2pPeers w).
               heap w' ! p =
                 received (heap w ! p)
                   (MsgBlockHashes
                     \<lparr>P2pID = p2pEphemeralID e, Root = GenesisBlockHash e,
                      Msg = p2pMsgBlockHashes e,
                      Hashes = map (dbHashAt e)
                        [lastTickBlockchainHeight (co w) + 1..dbBlockchainHeight e]\<rparr>))
         \<and> (\<forall>i < length (heap w). i \<notin> set (p2pPeers w) \<longrightarrow> heap w' ! i = heap w ! i)))
   \<and> (dbBlockchainHeight e \<le> lastTickBlockchainHeight (co w) \<longrightarrow>
      (\<exists>w'. handleTimeTick e w = Returned w'
         \<and> (\<forall>i < length (heap w). heap w' ! i = heap w ! i)))
   \<and> (lastTickBlockchainHeight (co w) < dbBlockchainHeight e \<and> distinct (p2pPeers w)
      \<and> (\<forall>p \<in> set (p2pPeers w). p < length (heap w))
      \<and> \<not> (\<forall>p \<in> set (p2pPeers w). hasRoom w p) \<longrightarrow>
      (\<exists>w' pre q post. p2pPeers w = pre @ q # post
         \<and> (\<forall>p \<in> set pre. hasRoom w p) \<and> \<not> hasRoom w q
         \<and> handleTimeTick e w =
             Blocked w' q
               (MsgBlockHashes
                 \<lparr>P2pID = p2pEphemeralID e, Root = GenesisBlockHash e,
                  Msg = p2pMsgBlockHashes e,
                  Hashes = map (dbHashAt e)
                    [lastTickBlockchainHeight (co w) + 1..dbBlockchainHeight e]\<rparr>)
         \<and> lastTickBlockchainHeight (co w') = lastTickBlockchainHeight (co w)
         \<and> (\<forall>i < length (heap w). heap w' ! i =
              (if i \<in> set pre
               then received (heap w ! i)
                 (MsgBlockHashes
                   \<lparr>P2pID = p2pEphemeralID e, Root = GenesisBlockHash e,
                    Msg = p2pMsgBlockHashes e,
                    Hashes = map (dbHashAt e)
                      [lastTickBlockchainHeight (co w) + 1..dbBlockchainHeight e]\<rparr>)
               else heap w ! i))))"
proof (intro conjI impI)
  assume a: "lastTickBlockchainHeight (co w) < dbBlockchainHeight e \<and> distinct (p2pPeers w)
      \<and> (\<forall>p \<in> set (p2pPeers w). hasRoom w p)"
  let ?m = "MsgBlockHashes
     \<lparr>P2pID = p2pEphemeralID e, Root = GenesisBlockHash e, Msg = p2pMsgBlockHashes e,
      Hashes = map (dbHashAt e) [lastTickBlockchainHeight (co w) + 1..dbBlockchainHeight e]\<rparr>"
  from a tickHeight_growth [of w e] obtain w1 where
    t: "tickHeight e w = Returned w1" and
    h: "lastTickBlockchainHeight (co w1) = dbBlockchainHeight e" and
    l: "length (heap w1) = length (heap w)" and
    n: "\<forall>i < length (heap w). heap w1 ! i =
          (if i \<in> set (p2pPeers w) then received (heap w ! i) ?m else heap w ! i)"
    by blast
  define w' where "w' = tickReconnect e w1"
  from tickReconnect_frame [of e w1] have
    f: "lastTickBlockchainHeight (co w') = lastTickBlockchainHeight (co w1)"
    and p: "prefix (heap w1) (heap w')"
    by (simp_all add: w'_def)
  from p l have same: "\<And>i. i < length (heap w) \<Longrightarrow> heap w' ! i = heap w1 ! i"
    by (auto simp: prefix_def nth_append)
  from a have valid: "\<And>p. p \<in> set (p2pPeers w) \<Longrightarrow> p < length (heap w)"
    by (simp add: hasRoom_def)
  have "handleTimeTick e w = Returned w'"
    by (simp add: handleTimeTick_def t w'_def)
  moreover have "lastTickBlockchainHeight (co w') = dbBlockchainHeight e"
    using f h by simp
  moreover have "\<forall>p \<in> set (p2pPeers w). heap w' ! p = received (heap w ! p) ?m"
    using same valid n by simp
  moreover have "\<forall>i < length (heap w). i \<notin> set (p2pPeers w) \<longrightarrow> heap w' ! i = heap w ! i"
    using same n by simp
  ultimately show "\<exists>w'. handleTimeTick e w = Returned w'
         \<and> lastTickBlockchainHeight (co w') = dbBlockchainHeight e
         \<and> (\<forall>p \<in> set (p2pPeers w). heap w' ! p = received (heap w ! p) ?m)
         \<and> (\<forall>i < length (heap w). i \<notin> set (p2pPeers w) \<longrightarrow> heap w' ! i = heap w ! i)"
    by blast
next
  assume a: "dbBlockchainHeight e \<le> lastTickBlockchainHeight (co w)"
  define w1 where "w1 = trace w CallDbGetBlockchainHeight"
  define w' where "w' = tickReconnect e w1"
  from tickReconnect_frame [of e w1] have "prefix (heap w) (heap w')"
    by (simp add: w'_def w1_def trace_def)
  then have "\<forall>i < length (heap w). heap w' ! i = heap w ! i"
    by (auto simp: prefix_def nth_append)
  moreover have "handleTimeTick e w = Returned w'"
    by (simp add: handleTimeTick_def tickHeight_nogrowth [OF a] w'_def w1_def)
  ultimately show "\<exists>w'. handleTimeTick e w = Returned w'
         \<and> (\<forall>i < length (heap w). heap w' ! i = heap w ! i)"
    by blast
next
  let ?m = "MsgBlockHashes
     \<lparr>P2pID = p2pEphemeralID e, Root = GenesisBlockHash e, Msg = p2pMsgBlockHashes e,
      Hashes = map (dbHashAt e) [lastTickBlockchainHeight (co w) + 1..dbBlockchainHeight e]\<rparr>"
  assume a: "lastTickBlockchainHeight (co w) < dbBlockchainHeight e \<and> distinct (p2pPeers w)
      \<and> (\<forall>p \<in> set (p2pPeers w). p < length (heap w))
      \<and> \<not> (\<forall>p \<in> set (p2pPeers w). hasRoom w p)"
  with tickHeight_blocked [of w e] obtain w' pre q post where
    "p2pPeers w = pre @ q # post" "\<forall>p \<in> set pre. hasRoom w p" "\<not> hasRoom w q"
    "tickHeight e w = Blocked w' q ?m"
    "lastTickBlockchainHeight (co w') = lastTickBlockchainHeight (co w)"
    "\<forall>i < length (heap w). heap w' ! i =
        (if i \<in> set pre then received (heap w ! i) ?m else heap w ! i)"
    by blast
  moreover from this have "handleTimeTick e w = Blocked w' q ?m"
    by (simp add: handleTimeTick_def)
  ultimately show "\<exists>w' pre q post. p2pPeers w = pre @ q # post
         \<and> (\<forall>p \<in> set pre. hasRoom w p) \<and> \<not> hasRoom w q
         \<and> handleTimeTick e w = Blocked w' q ?m
         \<and> lastTickBlockchainHeight (co w') = lastTickBlockchainHeight (co w)
         \<and> (\<forall>i < length (heap w). heap w' ! i =
              (if i \<in> set pre then received (heap w ! i) ?m else heap w ! i))"
    by blast
qed

theorem handleTimeTick_flood_witness:
  "lastTickBlockchainHeight (co exampleWorld) < dbBlockchainHeight exampleEnv
   \<and> distinct (p2pPeers exampleWorld) \<and> hasRoom exampleWorld 0
   \<and> (\<exists>w'. handleTimeTick exampleEnv exampleWorld = Returned w'
         \<and> lastTickBlockchainHeight (co w') = 103
         \<and> buf (chanToPeer (heap w' ! 0)) =
             [MsgBlockHashes \<lparr>P2pID = 7, Root = ''genesis'', Msg = ''blockhashes'',
                Hashes = [''a'', ''b'', ''c'']\<rparr>])
   \<and> \<not> hasRoom exampleFullWorld 0
   \<and> (\<exists>w'. handleTimeTick exampleEnv exampleFullWorld =
               Blocked w' 0
                 (MsgBlockHashes \<lparr>P2pID = 7, Root = ''genesis'', Msg = ''blockhashes'',
                    Hashes = [''a'', ''b'', ''c'']\<rparr>)
         \<and> lastTickBlockchainHeight (co w') = 100
         \<and> heap w' = heap exampleFullWorld)"
proof -
  have pre: "lastTickBlockchainHeight (co exampleWorld) < dbBlockchainHeight exampleEnv
     \<and> distinct (p2pPeers exampleWorld)
     \<and> (\<forall>p \<in> set (p2pPeers exampleWorld). hasRoom exampleWorld p)"
    by (simp add: example_defs hasRoom_def)
  with handleTimeTick_flood [of exampleWorld exampleEnv] obtain w' where
    r: "handleTimeTick exampleEnv exampleWorld = Returned w'" and
    h: "lastTickBlockchainHeight (co w') = dbBlockchainHeight exampleEnv" and
    q: "\<forall>p \<in> set (p2pPeers exampleWorld). heap w' ! p =
          received (heap exampleWorld ! p)
            (MsgBlockHashes
              \<lparr>P2pID = p2pEphemeralID exampleEnv, Root = GenesisBlockHash exampleEnv,
               Msg = p2pMsgBlockHashes exampleEnv,
               Hashes = map (dbHashAt exampleEnv)
                 [lastTickBlockchainHeight (co exampleWorld) + 1..dbBlockchainHeight exampleEnv]\<rparr>)"
    by blast
  from h have "lastTickBlockchainHeight (co w') = 103" by (simp add: example_defs)
  moreover from q have "buf (chanToPeer (heap w' ! 0)) =
             [MsgBlockHashes \<lparr>P2pID = 7, Root = ''genesis'', Msg = ''blockhashes'',
                Hashes = [''a'', ''b'', ''c'']\<rparr>]"
    by (simp add: example_defs received_def)
  ultimately have first: "lastTickBlockchainHeight (co exampleWorld) < dbBlockchainHeight exampleEnv
   \<and> distinct (p2pPeers exampleWorld) \<and> hasRoom exampleWorld 0
   \<and> (\<exists>w'. handleTimeTick exampleEnv exampleWorld = Returned w'
         \<and> lastTickBlockchainHeight (co w') = 103
         \<and> buf (chanToPeer (heap w' ! 0)) =
             [MsgBlockHashes \<lparr>P2pID = 7, Root = ''genesis'', Msg = ''blockhashes'',
                Hashes = [''a'', ''b'', ''c'']\<rparr>])"
    using pre r by (simp add: exampleWorld_def)
  have full: "\<not> hasRoom exampleFullWorld 0" by (simp add: example_defs hasRoom_def)
  then have "lastTickBlockchainHeight (co exampleFullWorld) < dbBlockchainHeight exampleEnv
     \<and> distinct (p2pPeers exampleFullWorld)
     \<and> (\<forall>p \<in> set (p2pPeers exampleFullWorld). p < length (heap exampleFullWorld))
     \<and> \<not> (\<forall>p \<in> set (p2pPeers exampleFullWorld). hasRoom exampleFullWorld p)"
    by (simp add: example_defs)
  with handleTimeTick_flood [of exampleFullWorld exampleEnv] obtain w'' pre q post where
    b: "p2pPeers exampleFullWorld = pre @ q # post"
    "handleTimeTick exampleEnv exampleFullWorld =
       Blocked w'' q
         (MsgBlockHashes
           \<lparr>P2pID = p2pEphemeralID exampleEnv, Root = GenesisBlockHash exampleEnv,
            Msg = p2pMsgBlockHashes exampleEnv,
            Hashes = map (dbHashAt exampleEnv)
              [lastTickBlockchainHeight (co exampleFullWorld) + 1..dbBlockchainHeight exampleEnv]\<rparr>)"
    "lastTickBlockchainHeight (co w'') = lastTickBlockchainHeight (co exampleFullWorld)"
    by blast
  from b(1) have "pre = [] \<and> q = 0"
    by (simp add: example_defs Cons_eq_append_conv)
  with b(2,3) have "handleTimeTick exampleEnv exampleFullWorld =
               Blocked w'' 0
                 (MsgBlockHashes \<lparr>P2pID = 7, Root = ''genesis'', Msg = ''blockhashes'',
                    Hashes = [''a'', ''b'', ''c'']\<rparr>)
         \<and> lastTickBlockchainHeight (co w'') = 100"
    by (simp add: example_defs)
  moreover from this have "heap w'' = heap exampleFullWorld"
    by (auto simp: eval_defs)
  ultimately show ?thesis using first full by blast
qed

text \<open>
  C9. On a tick at which the persisted height is less than or equal to
  \<open>lastTickBlockchainHeight\<close> (below it too), the handler returns,
  \<open>lastTickBlockchainHeight\<close> is unchanged, and there is no flood: the hash list is not
  fetched, every connection that existed is unchanged, and the connections made by the
  reconnection step of the same tick have empty outbound queues.
\<close>

theorem handleTimeTick_no_growth:
  "dbBlockchainHeight e \<le> lastTickBlockchainHeight (co w) \<Longrightarrow>
     \<exists>w' new tr. handleTimeTick e w = Returned w'
       \<and> lastTickBlockchainHeight (co w') = lastTickBlockchainHeight (co w)
       \<and> heap w' = heap w @ new \<and> (\<forall>c \<in> set new. buf (chanToPeer c) = [])
       \<and> calls w' = calls w @ tr \<and> (\<forall>a b. CallDbGetHeightHashes a b \<notin> set tr)"
proof -
  assume a: "dbBlockchainHeight e \<le> lastTickBlockchainHeight (co w)"
  define w1 where "w1 = trace w CallDbGetBlockchainHeight"
  define w' where "w' = tickReconnect e w1"
  have w1: "co w1 = co w" "heap w1 = heap w" "calls w1 = calls w @ [CallDbGetBlockchainHeight]"
    by (simp_all add: w1_def trace_def)
  have r: "handleTimeTick e w = Returned w'"
    by (simp add: handleTimeTick_def tickHeight_nogrowth [OF a] w'_def w1_def)
  from tickReconnect_frame [of e w1] w1 obtain new where
    "lastTickBlockchainHeight (co w') = lastTickBlockchainHeight (co w)"
    "heap w' = heap w @ new" "\<forall>c \<in> set new. buf (chanToPeer c) = []"
    by (auto simp: w'_def prefix_def)
  moreover from tickReconnect_no_hash_query [of e w1] w1 obtain tr where
    "calls w' = calls w @ (CallDbGetBlockchainHeight # tr)"
    "\<forall>a b. CallDbGetHeightHashes a b \<notin> set (CallDbGetBlockchainHeight # tr)"
    by (auto simp: w'_def)
  ultimately show ?thesis using r by blast
qed

theorem handleTimeTick_no_growth_witness:
  "dbBlockchainHeight (exampleEnv\<lparr>dbBlockchainHeight := 90\<rparr>)
     \<le> lastTickBlockchainHeight (co exampleWorld)
   \<and> (\<exists>w'. handleTimeTick (exampleEnv\<lparr>dbBlockchainHeight := 90\<rparr>) exampleWorld = Returned w'
         \<and> lastTickBlockchainHeight (co w') = 100
         \<and> heap w' ! 0 = exampleConn)"
proof -
  let ?e = "exampleEnv\<lparr>dbBlockchainHeight := 90\<rparr>"
  have pre: "dbBlockchainHeight ?e \<le> lastTickBlockchainHeight (co exampleWorld)"
    by (simp add: example_defs)
  from handleTimeTick_no_growth [OF pre] obtain w' new where
    "handleTimeTick ?e exampleWorld = Returned w'"
    "lastTickBlockchainHeight (co w') = lastTickBlockchainHeight (co exampleWorld)"
    "heap w' = heap exampleWorld @ new"
    by blast
  then have "handleTimeTick ?e exampleWorld = Returned w'
     \<and> lastTickBlockchainHeight (co w') = 100 \<and> heap w' ! 0 = exampleConn"
    by (simp add: exampleWorld_def exampleCo_def)
  with pre show ?thesis by blast
qed

subsection \<open>The height seen at the last tick never decreases\<close>

lemma handleTimeTick_mono:
  assumes "handleTimeTick e w = Returned w' \<or> handleTimeTick e w = Blocked w' q m"
  shows "lastTickBlockchainHeight (co w) \<le> lastTickBlockchainHeight (co w')"
proof (cases "tickHeight e w")
  case (Returned w1)
  with assms have "w' = tickReconnect e w1" by (simp add: handleTimeTick_def)
  with tickHeight_frame [of e w w1] tickReconnect_frame [of e w1] Returned
  show ?thesis by simp
next
  case (Blocked w1 q1 m1)
  with assms have "w' = w1" by (simp add: handleTimeTick_def)
  with tickHeight_frame [of e w w1 q1 m1] Blocked show ?thesis by simp
next
  case Panicked
  with assms show ?thesis by (simp add: handleTimeTick_def)
qed

lemma dispatch_not_tick:
  assumes "ev \<noteq> FromTimeTicks"
    and "dispatch e w ev = Returned w' \<or> dispatch e w ev = Blocked w' q m"
  shows "lastTickBlockchainHeight (co w') = lastTickBlockchainHeight (co w)"
proof (cases ev)
  case (FromCtrlChannel c)
  show ?thesis
  proof (cases c)
    case (p2pCtrlSearchForBlocks p)
    with assms(2) FromCtrlChannel handleSearchForBlocks_co [of e w p w' q m]
    show ?thesis by simp
  next
    case (p2pCtrlDiscoverPeers addresses)
    with assms(2) FromCtrlChannel discoverLoop_grows [of w e addresses]
    show ?thesis by (auto simp: handleDiscoverPeers_def grows_def)
  next
    case p2pCtrlOther
    with assms(2) FromCtrlChannel show ?thesis by auto
  qed
next
  case FromTimeTicks
  with assms(1) show ?thesis by simp
qed

lemma dispatch_mono:
  assumes "dispatch e w ev = Returned w' \<or> dispatch e w ev = Blocked w' q m"
  shows "lastTickBlockchainHeight (co w) \<le> lastTickBlockchainHeight (co w')"
proof (cases "ev = FromTimeTicks")
  case True
  with assms handleTimeTick_mono [of e w w' q m] show ?thesis by simp
next
  case False
  from dispatch_not_tick [OF False assms] show ?thesis by simp
qed

lemma runLoop_mono:
  "runLoop w evs = Returned w' \<or> runLoop w evs = Blocked w' q m \<Longrightarrow>
     lastTickBlockchainHeight (co w) \<le> lastTickBlockchainHeight (co w')"
proof (induction evs arbitrary: w)
  case Nil
  then show ?case by simp
next
  case (Cons x evs)
  obtain e ev where x: "x = (e, ev)" by (cases x)
  show ?case
  proof (cases "dispatch e w ev")
    case (Returned w1)
    with Cons.prems x have "runLoop w1 evs = Returned w' \<or> runLoop w1 evs = Blocked w' q m"
      by simp
    from Cons.IH [OF this] dispatch_mono [of e w ev w1] Returned show ?thesis by simp
  next
    case (Blocked w1 q1 m1)
    with Cons.prems x have "w' = w1" by simp
    with dispatch_mono [of e w ev w1 q1 m1] Blocked show ?thesis by simp
  next
    case Panicked
    with Cons.prems x show ?thesis by simp
  qed
qed

text \<open>
  C4. \<open>lastTickBlockchainHeight\<close> is set by the initialization of \<open>Run\<close> (to the
  persisted height) and otherwise changes only in the tick handler: every event that is
  not a tick leaves it as it is. Over any sequence of events its value does not decrease;
  in particular, the value after a tick is at most the value after the next tick, and in
  a run it never falls below the height read at initialization.
\<close>

theorem lastTickBlockchainHeight_monotone:
  "lastTickBlockchainHeight (co (runInit e0 w0)) = dbBlockchainHeight e0
   \<and> (ev \<noteq> FromTimeTicks
        \<and> (dispatch e w ev = Returned w' \<or> dispatch e w ev = Blocked w' q m) \<longrightarrow>
      lastTickBlockchainHeight (co w') = lastTickBlockchainHeight (co w))
   \<and> (runLoop w evs = Returned w' \<or> runLoop w evs = Blocked w' q m \<longrightarrow>
      lastTickBlockchainHeight (co w) \<le> lastTickBlockchainHeight (co w'))
   \<and> (handleTimeTick e1 w = Returned w1
        \<and> runLoop w1 (evs @ [(e2, FromTimeTicks)]) = Returned w2 \<longrightarrow>
      lastTickBlockchainHeight (co w1) \<le> lastTickBlockchainHeight (co w2))
   \<and> (Run e0 w0 evs = Returned w' \<or> Run e0 w0 evs = Blocked w' q m \<longrightarrow>
      dbBlockchainHeight e0 \<le> lastTickBlockchainHeight (co w'))"
proof -
  have "lastTickBlockchainHeight (co (runInit e0 w0)) = dbBlockchainHeight e0"
    by (simp add: runInit_def Let_def trace_def)
  moreover have "ev \<noteq> FromTimeTicks
        \<and> (dispatch e w ev = Returned w' \<or> dispatch e w ev = Blocked w' q m) \<longrightarrow>
      lastTickBlockchainHeight (co w') = lastTickBlockchainHeight (co w)"
    using dispatch_not_tick [of ev e w w' q m] by blast
  moreover have "runLoop w evs = Returned w' \<or> runLoop w evs = Blocked w' q m \<longrightarrow>
      lastTickBlockchainHeight (co w) \<le> lastTickBlockchainHeight (co w')"
    using runLoop_mono [of w evs w' q m] by blast
  moreover have "handleTimeTick e1 w = Returned w1
        \<and> runLoop w1 (evs @ [(e2, FromTimeTicks)]) = Returned w2 \<longrightarrow>
      lastTickBlockchainHeight (co w1) \<le> lastTickBlockchainHeight (co w2)"
    using runLoop_mono [of w1 "evs @ [(e2, FromTimeTicks)]" w2] by blast
  moreover have "Run e0 w0 evs = Returned w' \<or> Run e0 w0 evs = Blocked w' q m \<longrightarrow>
      dbBlockchainHeight e0 \<le> lastTickBlockchainHeight (co w')"
    using runLoop_mono [of "runInit e0 w0" evs w' q m] calculation(1)
    by (auto simp: Run_def)
  ultimately show ?thesis by blast
qed

theorem lastTickBlockchainHeight_monotone_witness:
  "\<exists>w'. runLoop exampleWorld
          [(exampleEnv, FromTimeTicks),
           (exampleEnv, FromCtrlChannel (p2pCtrlDiscoverPeers [''10.0.0.3''])),
           (exampleEnv\<lparr>dbBlockchainHeight := 90\<rparr>, FromTimeTicks)] = Returned w'
     \<and> lastTickBlockchainHeight (co w') = 103
     \<and> lastTickBlockchainHeight (co exampleWorld) \<le> lastTickBlockchainHeight (co w')"
proof -
  let ?evs = "[(exampleEnv, FromTimeTicks),
           (exampleEnv, FromCtrlChannel (p2pCtrlDiscoverPeers [''10.0.0.3''])),
           (exampleEnv\<lparr>dbBlockchainHeight := 90\<rparr>, FromTimeTicks)]"
  have "\<exists>w'. runLoop exampleWorld ?evs = Returned w' \<and> lastTickBlockchainHeight (co w') = 103"
    by (simp add: eval_defs)
  then obtain w' where r: "runLoop exampleWorld ?evs = Returned w'"
    "lastTickBlockchainHeight (co w') = 103" by blast
  with lastTickBlockchainHeight_monotone [where w = exampleWorld and evs = ?evs and w' = w']
  have "lastTickBlockchainHeight (co exampleWorld) \<le> lastTickBlockchainHeight (co w')"
    by blast
  with r show ?thesis by blast
qed

subsection \<open>The tick handler: reconnection\<close>

text \<open>
  C5. During a tick the saved peers are read (reconciliation runs) only if at least ten
  minutes have passed since \<open>lastReconnectTime\<close>, and then \<open>lastReconnectTime\<close> is
  the current time after the tick, whatever the dials of the reconciliation do (the
  statement holds for every environment). If reconciliation does not run,
  \<open>lastReconnectTime\<close> is unchanged. A tick that returns after ten minutes or more has
  run reconciliation.
\<close>

theorem handleTimeTick_reconnect:
  assumes "handleTimeTick e w = Returned w' \<or> handleTimeTick e w = Blocked w' q m"
  shows "\<exists>tr. calls w' = calls w @ tr
     \<and> (CallDbGetSavedPeers \<in> set tr \<longrightarrow>
          10 * Minute \<le> clockAtSince e - lastReconnectTime (co w)
          \<and> lastReconnectTime (co w') = clockAtNow e)
     \<and> (CallDbGetSavedPeers \<notin> set tr \<longrightarrow>
          lastReconnectTime (co w') = lastReconnectTime (co w))
     \<and> (handleTimeTick e w = Returned w'
          \<and> 10 * Minute \<le> clockAtSince e - lastReconnectTime (co w) \<longrightarrow>
          CallDbGetSavedPeers \<in> set tr)"
proof (cases "tickHeight e w")
  case (Returned w1)
  with assms have w': "w' = tickReconnect e w1" "handleTimeTick e w = Returned w'"
    by (simp_all add: handleTimeTick_def)
  from tickHeight_frame [of e w w1] Returned obtain tr1 where
    l: "lastReconnectTime (co w1) = lastReconnectTime (co w)" and
    t1: "calls w1 = calls w @ tr1" "CallDbGetSavedPeers \<notin> set tr1" by auto
  show ?thesis
  proof (cases "600000000000 \<le> clockAtSince e - lastReconnectTime (co w1)")
    case True
    define w2 where "w2 = w1\<lparr>co := (co w1)\<lparr>lastReconnectTime := clockAtNow e\<rparr>\<rparr>"
    from True have eq: "w' = connectDbPeers e w2"
      by (simp add: w' tickReconnect_due w2_def)
    from connectDbPeers_calls [of e w2] obtain tr2 where
      "calls w' = calls w2 @ CallDbGetSavedPeers # tr2" using eq by auto
    with t1 have "calls w' = calls w @ (tr1 @ CallDbGetSavedPeers # tr2)"
      by (simp add: w2_def)
    moreover from connectDbPeers_grows [of w2 e] eq
    have "lastReconnectTime (co w') = clockAtNow e" by (simp add: grows_def w2_def)
    moreover from True l have "10 * Minute \<le> clockAtSince e - lastReconnectTime (co w)"
      by (simp add: Minute_def)
    ultimately show ?thesis by (intro exI [of _ "tr1 @ CallDbGetSavedPeers # tr2"]) simp
  next
    case False
    then have "w' = w1" by (simp add: w' tickReconnect_not_due)
    moreover from False l have "\<not> 10 * Minute \<le> clockAtSince e - lastReconnectTime (co w)"
      by (simp add: Minute_def)
    ultimately show ?thesis using t1 l by (intro exI [of _ tr1]) simp
  qed
next
  case (Blocked w1 q1 m1)
  with assms have w': "w' = w1" "handleTimeTick e w \<noteq> Returned w'"
    by (simp_all add: handleTimeTick_def)
  from tickHeight_frame [of e w w1 q1 m1] Blocked obtain tr1 where
    "lastReconnectTime (co w1) = lastReconnectTime (co w)"
    "calls w1 = calls w @ tr1" "CallDbGetSavedPeers \<notin> set tr1" by auto
  with w' show ?thesis by (intro exI [of _ tr1]) simp
next
  case Panicked
  with assms show ?thesis by (simp add: handleTimeTick_def)
qed

theorem handleTimeTick_reconnect_witness:
  "\<exists>w'. handleTimeTick exampleEnv exampleWorld = Returned w'
     \<and> CallDbGetSavedPeers \<in> set (calls w')
     \<and> LogErrorConnecting ''10.0.0.9:2017'' \<in> set (calls w')
     \<and> 10 * Minute \<le> clockAtSince exampleEnv - lastReconnectTime (co exampleWorld)
     \<and> lastReconnectTime (co w') = 600000000001"
proof -
  have "\<exists>w'. handleTimeTick exampleEnv exampleWorld = Returned w'
     \<and> CallDbGetSavedPeers \<in> set (calls w')
     \<and> LogErrorConnecting ''10.0.0.9:2017'' \<in> set (calls w')"
    by (simp add: eval_defs)
  then obtain w' where r: "handleTimeTick exampleEnv exampleWorld = Returned w'"
    "CallDbGetSavedPeers \<in> set (calls w')"
    "LogErrorConnecting ''10.0.0.9:2017'' \<in> set (calls w')" by blast
  from handleTimeTick_reconnect [of exampleEnv exampleWorld w'] r(1) obtain tr where
    t: "calls w' = calls exampleWorld @ tr" and
    i: "CallDbGetSavedPeers \<in> set tr \<longrightarrow>
          10 * Minute \<le> clockAtSince exampleEnv - lastReconnectTime (co exampleWorld)
          \<and> lastReconnectTime (co w') = clockAtNow exampleEnv"
    by blast
  from t r(2) have "CallDbGetSavedPeers \<in> set tr" by (simp add: exampleWorld_def)
  with i have "10 * Minute \<le> clockAtSince exampleEnv - lastReconnectTime (co exampleWorld)"
    "lastReconnectTime (co w') = 600000000001" by (simp_all add: exampleEnv_def)
  with r show ?thesis by blast
qed

end
